theory Spec2Isabelle
  imports Main "HOL-Library.Word" "HOL-Library.Sublist"
begin

section \<open>Mood playlists: the tools of \<^verbatim>\<open>src/tools.ts\<close> and the workflow of \<^verbatim>\<open>src/workflows.ts\<close>\<close>

text \<open>
  The tools keep mood playlists in JavaScript arrays of \<^verbatim>\<open>Playlist\<close> objects. Arrays and
  objects are shared by reference (an agent's \<^verbatim>\<open>playlists\<close> field may be the module-level
  array \<^verbatim>\<open>globalPlaylists\<close>), so the model has an explicit heap. Everything a tool mutates is a
  component of the heap, every tool takes the heap and returns the new one, and an exception
  is the \<open>Inl\<close> branch of the result.
\<close>

subsection \<open>Strings\<close>

text \<open>
  A string of the language is a sequence of 16-bit code units, and \<^verbatim>\<open>===\<close> on strings is
  equality of the sequences. The text of a template or of a string literal of the source is
  ASCII: \<open>lit\<close> gives its code units.
\<close>

type_synonym jsstring = "16 word list"

definition lit :: "string \<Rightarrow> jsstring" where
  "lit s = map of_char s"

text \<open>
  \<^verbatim>\<open>String.prototype.toLowerCase\<close> is a built-in of the language, given by the case mappings
  of the Unicode standard, which are no part of the repository. It is a parameter,
  \<open>toLowerCase\<close>, of every definition that uses it: what is proved holds for every function in
  its place, the built-in among them.
\<close>

text \<open>
  \<^verbatim>\<open>encodeURIComponent\<close> raises \<^verbatim>\<open>URIError\<close> when its argument has a surrogate code unit
  that is not part of a pair, and only then: \<open>isWellFormed\<close> holds of the strings it accepts,
  as \<^verbatim>\<open>String.prototype.isWellFormed\<close> does.
\<close>

definition isHighSurrogate :: "16 word \<Rightarrow> bool" where
  "isHighSurrogate u = (0xD800 \<le> u \<and> u \<le> 0xDBFF)"

definition isLowSurrogate :: "16 word \<Rightarrow> bool" where
  "isLowSurrogate u = (0xDC00 \<le> u \<and> u \<le> 0xDFFF)"

fun isWellFormed :: "jsstring \<Rightarrow> bool" where
  "isWellFormed [] = True"
| "isWellFormed [u] = (\<not> isHighSurrogate u \<and> \<not> isLowSurrogate u)"
| "isWellFormed (u # v # us) =
     (if isHighSurrogate u then isLowSurrogate v \<and> isWellFormed us
      else \<not> isLowSurrogate u \<and> isWellFormed (v # us))"

text \<open>\<^verbatim>\<open>Array.prototype.join\<close>: the elements separated by \<open>sep\<close>; the empty string for no element.\<close>

fun join :: "jsstring \<Rightarrow> jsstring list \<Rightarrow> jsstring" where
  "join sep [] = []"
| "join sep [x] = x"
| "join sep (x # y # ys) = x @ sep @ join sep (y # ys)"

text \<open>A number interpolated into a template string: its decimal digits.\<close>

fun numToString :: "nat \<Rightarrow> jsstring" where
  "numToString n =
     (if n < 10 then [lit ''0123456789'' ! n]
      else numToString (n div 10) @ [lit ''0123456789'' ! (n mod 10)])"

declare numToString.simps [simp del]

subsection \<open>Data\<close>

record SongEntry =
  title :: jsstring
  artist :: "jsstring option"

record Playlist =
  mood :: jsstring
  songs :: "SongEntry list"

text \<open>
  \<^verbatim>\<open>agent: any\<close>. The only property the tools touch is \<^verbatim>\<open>playlists\<close>: \<open>None\<close> when the object
  has no such property (\<^verbatim>\<open>!("playlists" in agent)\<close>), else the array it refers to.
\<close>

record agent =
  playlists :: "nat option"

datatype error = TypeError | URIError | NetworkError | SyntaxError

text \<open>
  The heap: the agent objects, the \<^verbatim>\<open>Playlist[]\<close> arrays (each a list of references to
  \<^verbatim>\<open>Playlist\<close> objects), the \<^verbatim>\<open>Playlist\<close> objects, and the first address no object has yet.
  The \<^verbatim>\<open>songs\<close> array of a playlist is held in the object: no tool makes two playlists share one.
\<close>

record heap =
  agents :: "nat \<Rightarrow> agent"
  arrays :: "nat \<Rightarrow> nat list"
  objects :: "nat \<Rightarrow> Playlist"
  lim :: nat

text \<open>\<^verbatim>\<open>const globalPlaylists: Playlist[] = []\<close>: one array, at a fixed address.\<close>

definition globalPlaylists :: nat where
  "globalPlaylists = 0"

definition initial :: heap where
  "initial = \<lparr>agents = (\<lambda>_. \<lparr>playlists = None\<rparr>), arrays = (\<lambda>_. []),
              objects = (\<lambda>_. \<lparr>mood = [], songs = []\<rparr>), lim = 0\<rparr>"

text \<open>Every object an array refers to has been allocated.\<close>

definition allocated :: "heap \<Rightarrow> bool" where
  "allocated h = (\<forall>a. \<forall>p \<in> set (arrays h a). p < lim h)"

subsection \<open>The store\<close>

definition ensurePlaylists :: "nat \<Rightarrow> heap \<Rightarrow> nat \<times> heap" where
  "ensurePlaylists ag h =
     (case playlists (agents h ag) of
        None \<Rightarrow>
          (globalPlaylists,
           h\<lparr>agents := (agents h)(ag := (agents h ag)\<lparr>playlists := Some globalPlaylists\<rparr>)\<rparr>)
      | Some ps \<Rightarrow> (ps, h))"

text \<open>
  \<^verbatim>\<open>playlists.find((p) => p.mood.toLowerCase() === mood.toLowerCase())\<close>, as
  \<^verbatim>\<open>getOrCreatePlaylist\<close> and three of the tools write it: the first playlist of the array whose mood matches, or \<open>None\<close> for \<^verbatim>\<open>undefined\<close>.
\<close>

definition findPlaylist ::
  "(jsstring \<Rightarrow> jsstring) \<Rightarrow> heap \<Rightarrow> nat \<Rightarrow> jsstring \<Rightarrow> nat option" where
  "findPlaylist toLowerCase h ps m =
     List.find (\<lambda>p. toLowerCase (mood (objects h p)) = toLowerCase m) (arrays h ps)"

definition getOrCreatePlaylist ::
  "(jsstring \<Rightarrow> jsstring) \<Rightarrow> nat \<Rightarrow> jsstring \<Rightarrow> heap \<Rightarrow> nat \<times> heap" where
  "getOrCreatePlaylist toLowerCase ag m h =
     (let (ps, h1) = ensurePlaylists ag h in
      case findPlaylist toLowerCase h1 ps m of
        Some p \<Rightarrow> (p, h1)
      | None \<Rightarrow>
          (let p = lim h1 in
           (p, h1\<lparr>arrays := (arrays h1)(ps := arrays h1 ps @ [p]),
                  objects := (objects h1)(p := \<lparr>mood = m, songs = []\<rparr>),
                  lim := Suc p\<rparr>)))"

text \<open>\<^verbatim>\<open>playlist.songs.push(...xs)\<close> on the object at \<open>p\<close>.\<close>

definition pushSongs :: "nat \<Rightarrow> SongEntry list \<Rightarrow> heap \<Rightarrow> heap" where
  "pushSongs p xs h =
     h\<lparr>objects := (objects h)(p := (objects h p)\<lparr>songs := songs (objects h p) @ xs\<rparr>)\<rparr>"

subsection \<open>The tools\<close>

text \<open>
  \<^verbatim>\<open>getCurrentAgent\<close> belongs to the agents library; the agent it returns is the first
  argument of each tool. A string is truthy when it is defined and not empty.
\<close>

definition truthy :: "jsstring option \<Rightarrow> bool" where
  "truthy s = (case s of None \<Rightarrow> False | Some a \<Rightarrow> a \<noteq> [])"

text \<open>\<^verbatim>\<open>${artist ? ` by ${artist}` : ""}\<close>\<close>

definition byArtist :: "jsstring option \<Rightarrow> jsstring" where
  "byArtist a = (if truthy a then lit '' by '' @ the a else [])"

definition addSong ::
  "(jsstring \<Rightarrow> jsstring) \<Rightarrow> nat \<Rightarrow> jsstring \<Rightarrow> jsstring option \<Rightarrow> jsstring \<Rightarrow> heap
     \<Rightarrow> jsstring \<times> heap" where
  \<open>addSong toLowerCase ag t a m h =
     (let (p, h1) = getOrCreatePlaylist toLowerCase ag m h;
          h2 = pushSongs p [\<lparr>title = t, artist = a\<rparr>] h1
      in (lit ''Added "'' @ t @ lit ''"'' @ byArtist a @ lit '' to your "'' @ m
            @ lit ''" playlist.'', h2))\<close>

text \<open>
  The guard of \<^verbatim>\<open>getSongsByMood\<close> is commented out in the source, so \<^verbatim>\<open>playlist.songs\<close> is read
  also when \<^verbatim>\<open>find\<close> returned \<^verbatim>\<open>undefined\<close>: a \<^verbatim>\<open>TypeError\<close>.
\<close>

definition showSong :: "SongEntry \<Rightarrow> jsstring" where
  \<open>showSong s = lit ''"'' @ title s @ lit ''"'' @ byArtist (artist s)\<close>

definition getSongsByMood ::
  "(jsstring \<Rightarrow> jsstring) \<Rightarrow> nat \<Rightarrow> jsstring \<Rightarrow> heap \<Rightarrow> (error + jsstring) \<times> heap" where
  "getSongsByMood toLowerCase ag m h =
     (let (ps, h1) = ensurePlaylists ag h in
      case findPlaylist toLowerCase h1 ps m of
        None \<Rightarrow> (Inl TypeError, h1)
      | Some p \<Rightarrow> (Inr (join (lit '', '') (map showSong (songs (objects h1 p)))), h1))"

text \<open>
  \<^verbatim>\<open>recommendSongs\<close> returns either a message or the object
  \<^verbatim>\<open>{ type: "llm_prompt", prompt, mood, playlist }\<close>, whose \<^verbatim>\<open>playlist\<close> is the reference to the
  stored playlist.
\<close>

datatype recommended = Text jsstring | LlmPrompt jsstring jsstring nat

definition nl :: jsstring where
  "nl = [0x0A]"

definition promptFor :: "jsstring \<Rightarrow> SongEntry list \<Rightarrow> jsstring" where
  \<open>promptFor m xs =
     nl @ lit ''      You are recommending songs similar to the user's "'' @ m
     @ lit ''" playlist:'' @ nl
     @ lit ''      '' @ join nl (map (\<lambda>s. lit ''- '' @ showSong s) xs) @ nl
     @ nl
     @ lit ''      Generate 3 similar song recommendations and ask the user: '' @ nl
     @ lit ''      "Do you want to add them to your '' @ m @ lit '' playlist? Reply yes or no."'' @ nl
     @ lit ''    ''\<close>

definition recommendSongs ::
  "(jsstring \<Rightarrow> jsstring) \<Rightarrow> nat \<Rightarrow> jsstring \<Rightarrow> heap \<Rightarrow> recommended \<times> heap" where
  \<open>recommendSongs toLowerCase ag m h =
     (let (ps, h1) = ensurePlaylists ag h;
          none = Text (lit ''You don't have any songs in your "'' @ m @ lit ''" playlist yet.'')
      in case findPlaylist toLowerCase h1 ps m of
           None \<Rightarrow> (none, h1)
         | Some p \<Rightarrow>
             if songs (objects h1 p) = [] then (none, h1)
             else (LlmPrompt (promptFor m (songs (objects h1 p))) m p, h1))\<close>

text \<open>
  \<^verbatim>\<open>confirm\<close> is \<open>None\<close> when the caller's object has no such property, as in the workflow
  below; \<^verbatim>\<open>!confirm\<close> holds for \<^verbatim>\<open>undefined\<close> and for \<^verbatim>\<open>false\<close>.
\<close>

definition confirmAddRecommendedSongs ::
  "(jsstring \<Rightarrow> jsstring) \<Rightarrow> nat \<Rightarrow> bool option \<Rightarrow> SongEntry list \<Rightarrow> jsstring \<Rightarrow> heap
     \<Rightarrow> jsstring \<times> heap" where
  \<open>confirmAddRecommendedSongs toLowerCase ag confirm recommendedSongs m h =
     (if confirm \<noteq> Some True then (lit ''No songs were added.'', h)
      else
        (let (p, h1) = getOrCreatePlaylist toLowerCase ag m h;
             h2 = pushSongs p recommendedSongs h1
         in (lit ''Added '' @ numToString (length recommendedSongs) @ lit '' songs to your "'' @ m
               @ lit ''" playlist.'', h2)))\<close>

subsection \<open>The streaming service\<close>

text \<open>
  \<^verbatim>\<open>createSpotifyPlaylist\<close> talks to the service through \<^verbatim>\<open>fetch\<close>. The service is a parameter:
  for each of the four requests, what the code reads from the reply, or the exception that
  \<^verbatim>\<open>fetch\<close>, \<^verbatim>\<open>json()\<close> or the read of a property of \<^verbatim>\<open>undefined\<close> raises. Within one run a
  reply depends on the request only. The access token is part of the service; the
  \<^verbatim>\<open>console.log\<close> of the token and the \<^verbatim>\<open>public: false\<close> of the creation request are left out.
  \<^item> \<open>me\<close>: \<^verbatim>\<open>userData.id\<close> of \<^verbatim>\<open>GET /v1/me\<close>;
  \<^item> \<open>createPlaylist uid name description\<close>: the reply to
    \<^verbatim>\<open>POST /v1/users/{uid}/playlists\<close>, of which \<^verbatim>\<open>createdPlaylist.id\<close> and
    \<^verbatim>\<open>createdPlaylist.external_urls.spotify\<close> are read later, each read raising or not;
  \<^item> \<open>search query\<close>: \<^verbatim>\<open>searchData.tracks.items\<close> of
    \<^verbatim>\<open>GET /v1/search?q={query}&type=track&limit=1\<close>, each item by its \<^verbatim>\<open>uri\<close>, where
    \<open>query\<close> is the string that \<^verbatim>\<open>encodeURIComponent\<close> has encoded into the URL;
  \<^item> \<open>addTracks id uris\<close>: \<^verbatim>\<open>POST /v1/playlists/{id}/tracks\<close>, whose reply is not read.
\<close>

datatype call =
  GetMe
  | PostPlaylist jsstring jsstring jsstring
  | Search jsstring
  | PostTracks jsstring "jsstring list"

record CreatedPlaylist =
  playlist_id :: "error + jsstring"
  spotify_url :: "error + jsstring"

record service =
  me :: "error + jsstring"
  createPlaylist :: "jsstring \<Rightarrow> jsstring \<Rightarrow> jsstring \<Rightarrow> error + CreatedPlaylist"
  search :: "jsstring \<Rightarrow> error + jsstring list"
  addTracks :: "jsstring \<Rightarrow> jsstring list \<Rightarrow> error + unit"

text \<open>\<^verbatim>\<open>song.artist ? `${song.title} ${song.artist}` : song.title\<close>\<close>

definition query :: "SongEntry \<Rightarrow> jsstring" where
  "query song = (if truthy (artist song) then title song @ lit '' '' @ the (artist song)
                 else title song)"

text \<open>
  The loop \<^verbatim>\<open>for (const song of playlist.songs)\<close>, with \<^verbatim>\<open>trackUris\<close> and the calls made so far
  as accumulators. An exception ends it: the \<^verbatim>\<open>URIError\<close> of \<^verbatim>\<open>encodeURIComponent(query)\<close>,
  raised before the request is made, or the exception of the request or of the read of
  \<^verbatim>\<open>searchData.tracks.items[0]\<close>. \<^verbatim>\<open>track\<close> is the first item, \<^verbatim>\<open>undefined\<close> when there is none.
\<close>

fun resolveTracks ::
  "service \<Rightarrow> SongEntry list \<Rightarrow> jsstring list \<Rightarrow> call list
     \<Rightarrow> (error + jsstring list) \<times> call list"
where
  "resolveTracks svc [] trackUris calls = (Inr trackUris, calls)"
| "resolveTracks svc (song # rest) trackUris calls =
     (if \<not> isWellFormed (query song) then (Inl URIError, calls)
      else
        (case search svc (query song) of
           Inl e \<Rightarrow> (Inl e, calls @ [Search (query song)])
         | Inr items \<Rightarrow>
             resolveTracks svc rest
               (case items of [] \<Rightarrow> trackUris | track # _ \<Rightarrow> trackUris @ [track])
               (calls @ [Search (query song)])))"

text \<open>\<^verbatim>\<open>if (trackUris.length > 0) await fetch(.../playlists/${createdPlaylist.id}/tracks ...)\<close>\<close>

definition attachTracks ::
  "service \<Rightarrow> CreatedPlaylist \<Rightarrow> jsstring list \<Rightarrow> call list \<Rightarrow> (error + unit) \<times> call list"
where
  "attachTracks svc created trackUris calls =
     (if trackUris \<noteq> [] then
        (case playlist_id created of
           Inl e \<Rightarrow> (Inl e, calls)
         | Inr pid \<Rightarrow>
             (case addTracks svc pid trackUris of
                Inl e \<Rightarrow> (Inl e, calls @ [PostTracks pid trackUris])
              | Inr _ \<Rightarrow> (Inr (), calls @ [PostTracks pid trackUris])))
      else (Inr (), calls))"

text \<open>The result, the calls made to the service in their order, and the heap.\<close>

definition createSpotifyPlaylist ::
  "(jsstring \<Rightarrow> jsstring) \<Rightarrow> nat \<Rightarrow> service \<Rightarrow> jsstring \<Rightarrow> jsstring \<Rightarrow> heap
     \<Rightarrow> (error + jsstring) \<times> call list \<times> heap" where
  \<open>createSpotifyPlaylist toLowerCase ag svc m playlistName h =
     (let (ps, h1) = ensurePlaylists ag h;
          none = Inr (lit ''No songs found in your "'' @ m @ lit ''" playlist.'')
      in case findPlaylist toLowerCase h1 ps m of
           None \<Rightarrow> (none, [], h1)
         | Some p \<Rightarrow>
             if songs (objects h1 p) = [] then (none, [], h1)
             else
               (case me svc of
                  Inl e \<Rightarrow> (Inl e, [GetMe], h1)
                | Inr uid \<Rightarrow>
                    (let description = lit ''Playlist generated from your "'' @ m @ lit ''" songs'';
                         calls = [GetMe, PostPlaylist uid playlistName description]
                     in case createPlaylist svc uid playlistName description of
                          Inl e \<Rightarrow> (Inl e, calls, h1)
                        | Inr created \<Rightarrow>
                            (case resolveTracks svc (songs (objects h1 p)) [] calls of
                               (Inl e, calls1) \<Rightarrow> (Inl e, calls1, h1)
                             | (Inr trackUris, calls1) \<Rightarrow>
                                 (case attachTracks svc created trackUris calls1 of
                                    (Inl e, calls2) \<Rightarrow> (Inl e, calls2, h1)
                                  | (Inr _, calls2) \<Rightarrow>
                                      (case spotify_url created of
                                         Inl e \<Rightarrow> (Inl e, calls2, h1)
                                       | Inr url \<Rightarrow>
                                           (Inr (lit ''Spotify playlist "'' @ playlistName
                                                 @ lit ''" created! Listen here: '' @ url),
                                            calls2, h1)))))))\<close>

subsection \<open>The workflow\<close>

text \<open>
  \<^verbatim>\<open>PlaylistWorkflow.run\<close>. \<^verbatim>\<open>step.do(name, f)\<close> belongs to the workflow runtime: the model
  records \<open>name\<close> and runs \<open>f\<close>, whose exception ends the run. The second step calls
  \<^verbatim>\<open>confirmAddRecommendedSongs.execute({ songs: recommendedSongs })\<close>: the object has no
  \<^verbatim>\<open>confirm\<close>, and the two other arguments, absent as well, are not read before the tool
  returns. \<^verbatim>\<open>recommendedSongs\<close> and \<^verbatim>\<open>confirmed\<close> are strings, falsy when empty.
\<close>

definition run ::
  "(jsstring \<Rightarrow> jsstring) \<Rightarrow> nat \<Rightarrow> service \<Rightarrow> jsstring \<Rightarrow> jsstring \<Rightarrow> heap
     \<Rightarrow> (error + jsstring) \<times> jsstring list \<times> call list \<times> heap" where
  \<open>run toLowerCase ag svc m playlistName h =
     (case getSongsByMood toLowerCase ag m h of
        (Inl e, h1) \<Rightarrow> (Inl e, [lit ''recommend songs''], [], h1)
      | (Inr recommendedSongs, h1) \<Rightarrow>
          if recommendedSongs = [] then
            (Inr (lit ''No songs found for mood "'' @ m @ lit ''".''),
             [lit ''recommend songs''], [], h1)
          else
            (let (confirmed, h2) = confirmAddRecommendedSongs toLowerCase ag None [] [] h1 in
             if confirmed = [] then
               (Inr (lit ''Playlist creation canceled by user.''),
                [lit ''recommend songs'', lit ''confirm songs''], [], h2)
             else
               (let (result, calls, h3) =
                      createSpotifyPlaylist toLowerCase ag svc m playlistName h2
                in (result,
                    [lit ''recommend songs'', lit ''confirm songs'',
                     lit ''create Spotify playlist''],
                    calls, h3))))\<close>

subsection \<open>Notions used in the statements\<close>

text \<open>The array an agent's tools work on: its own, or the global one.\<close>

definition storeOf :: "heap \<Rightarrow> nat \<Rightarrow> nat" where
  "storeOf h ag = fst (ensurePlaylists ag h)"

text \<open>The songs of the playlist that \<^verbatim>\<open>find\<close> returns for a mood; none when it returns none.\<close>

definition songsOf ::
  "(jsstring \<Rightarrow> jsstring) \<Rightarrow> heap \<Rightarrow> nat \<Rightarrow> jsstring \<Rightarrow> SongEntry list" where
  "songsOf toLowerCase h ps m =
     (case findPlaylist toLowerCase h ps m of None \<Rightarrow> [] | Some p \<Rightarrow> songs (objects h p))"

text \<open>At most one playlist per mood, compared in lower case, in every array.\<close>

definition uniqueMoods :: "(jsstring \<Rightarrow> jsstring) \<Rightarrow> heap \<Rightarrow> bool" where
  "uniqueMoods toLowerCase h =
     (\<forall>ps. distinct (map (\<lambda>p. toLowerCase (mood (objects h p))) (arrays h ps)))"

text \<open>A sequence of calls of \<^verbatim>\<open>getOrCreatePlaylist\<close>, each with its agent and its mood.\<close>

definition getOrCreateAll ::
  "(jsstring \<Rightarrow> jsstring) \<Rightarrow> (nat \<times> jsstring) list \<Rightarrow> heap \<Rightarrow> heap" where
  "getOrCreateAll toLowerCase cs h =
     fold (\<lambda>(ag, m) h'. snd (getOrCreatePlaylist toLowerCase ag m h')) cs h"

text \<open>A sequence of calls of \<^verbatim>\<open>addSong\<close> by one agent for one mood.\<close>

definition addSongs ::
  "(jsstring \<Rightarrow> jsstring) \<Rightarrow> nat \<Rightarrow> jsstring \<Rightarrow> SongEntry list \<Rightarrow> heap \<Rightarrow> heap" where
  "addSongs toLowerCase ag m xs h =
     fold (\<lambda>s h'. snd (addSong toLowerCase ag (title s) (artist s) m h')) xs h"

text \<open>
  What the search for a song contributes to \<^verbatim>\<open>trackUris\<close>: the first of the items returned,
  when there is one.
\<close>

definition firstMatch :: "service \<Rightarrow> SongEntry \<Rightarrow> jsstring list" where
  "firstMatch svc song = (case search svc (query song) of Inr (uri # _) \<Rightarrow> [uri] | _ \<Rightarrow> [])"

subsection \<open>Examples\<close>

text \<open>
  On a string whose code units are all below \<^verbatim>\<open>0x100\<close>, \<^verbatim>\<open>toLowerCase\<close> adds \<^verbatim>\<open>0x20\<close> to the
  capital letters, \<^verbatim>\<open>A\<close> to \<^verbatim>\<open>Z\<close> and \<^verbatim>\<open>0xC0\<close> to \<^verbatim>\<open>0xDE\<close> without \<^verbatim>\<open>0xD7\<close>, and keeps the rest.
  The examples, whose moods are such strings, take this function for it.
\<close>

definition lowerLatin1 :: "jsstring \<Rightarrow> jsstring" where
  "lowerLatin1 s =
     map (\<lambda>u. if (0x41 \<le> u \<and> u \<le> 0x5A) \<or> (0xC0 \<le> u \<and> u \<le> 0xDE \<and> u \<noteq> 0xD7)
               then u + 0x20 else u) s"

text \<open>
  A service that answers every request with a reply of the expected shape and finds tracks for
  the query \<^verbatim>\<open>Song A\<close> only.
\<close>

definition catalog :: service where
  "catalog =
     \<lparr>me = Inr (lit ''u1''),
      createPlaylist = (\<lambda>uid name description.
        Inr \<lparr>playlist_id = Inr (lit ''pl1''),
             spotify_url = Inr (lit ''https://open.spotify.com/playlist/pl1'')\<rparr>),
      search = (\<lambda>q. Inr (if q = lit ''Song A''
                           then [lit ''spotify:track:a'', lit ''spotify:track:a2''] else [])),
      addTracks = (\<lambda>pid uris. Inr ())\<rparr>"

text \<open>
  The same service, except that the reply to a search has no \<^verbatim>\<open>tracks\<close>: the read of
  \<^verbatim>\<open>searchData.tracks.items\<close> raises \<^verbatim>\<open>TypeError\<close>.
\<close>

definition brittle :: service where
  "brittle = catalog\<lparr>search := (\<lambda>q. Inl TypeError)\<rparr>"

definition songA :: SongEntry where
  "songA = \<lparr>title = lit ''Song A'', artist = None\<rparr>"

definition songB :: SongEntry where
  "songB = \<lparr>title = lit ''Song B'', artist = Some (lit ''Band'')\<rparr>"

text \<open>A song whose artist is the empty string, and one whose title is a lone surrogate.\<close>

definition songC :: SongEntry where
  "songC = \<lparr>title = lit ''Song C'', artist = Some []\<rparr>"

definition songD :: SongEntry where
  "songD = \<lparr>title = [0xD800], artist = None\<rparr>"

section \<open>Properties of the operations\<close>

subsection \<open>Reading the heap after a call\<close>

lemma ensurePlaylists_fields:
  "arrays (snd (ensurePlaylists ag h)) = arrays h"
  "objects (snd (ensurePlaylists ag h)) = objects h"
  "lim (snd (ensurePlaylists ag h)) = lim h"
  by (simp_all add: ensurePlaylists_def split: option.splits)

lemma ensurePlaylists_agents:
  "playlists (agents (snd (ensurePlaylists ag h)) ag) = Some (storeOf h ag)"
  by (simp add: ensurePlaylists_def storeOf_def split: option.splits)

lemma ensurePlaylists_other:
  "a \<noteq> ag \<Longrightarrow> agents (snd (ensurePlaylists ag h)) a = agents h a"
  by (simp add: ensurePlaylists_def split: option.splits)

lemma findPlaylist_cong:
  "arrays h' ps = arrays h ps \<Longrightarrow>
   (\<forall>p \<in> set (arrays h ps). mood (objects h' p) = mood (objects h p)) \<Longrightarrow>
   findPlaylist lc h' ps m = findPlaylist lc h ps m"
  unfolding findPlaylist_def by (auto intro: find_cong)

lemma findPlaylist_ensure [simp]:
  "findPlaylist lc (snd (ensurePlaylists ag h)) ps m = findPlaylist lc h ps m"
  by (rule findPlaylist_cong) (simp_all add: ensurePlaylists_fields)

lemma storeOf_ensure [simp]: "storeOf (snd (ensurePlaylists ag h)) ag = storeOf h ag"
  by (simp add: ensurePlaylists_def storeOf_def split: option.splits)

lemma findPlaylist_initial: "findPlaylist lc initial ps m = None"
  by (simp add: findPlaylist_def initial_def)

lemma storeOf_initial: "storeOf initial ag = globalPlaylists"
  by (simp add: storeOf_def ensurePlaylists_def initial_def)

lemma getSongsByMood_absent:
  "findPlaylist lc h (storeOf h ag) m = None \<Longrightarrow>
     getSongsByMood lc ag m h = (Inl TypeError, snd (ensurePlaylists ag h))"
  by (simp add: getSongsByMood_def storeOf_def split_beta)

lemma getSongsByMood_present:
  "findPlaylist lc h (storeOf h ag) m = Some p \<Longrightarrow>
     getSongsByMood lc ag m h =
       (Inr (join (lit '', '') (map showSong (songs (objects h p)))), snd (ensurePlaylists ag h))"
  by (simp add: getSongsByMood_def storeOf_def split_beta ensurePlaylists_fields)

subsection \<open>Finding and creating a playlist\<close>

lemma find_snoc_fresh:
  "(\<forall>x \<in> set xs. P x \<longrightarrow> x = p) \<Longrightarrow> P p \<Longrightarrow> List.find P (xs @ [p]) = Some p"
  by (induction xs) auto

lemma getOrCreatePlaylist_found:
  "findPlaylist lc h (storeOf h ag) m = Some p \<Longrightarrow>
     getOrCreatePlaylist lc ag m h = (p, snd (ensurePlaylists ag h))"
  by (simp add: getOrCreatePlaylist_def storeOf_def split_beta)

lemma getOrCreatePlaylist_created:
  "findPlaylist lc h (storeOf h ag) m = None \<Longrightarrow>
     getOrCreatePlaylist lc ag m h =
       (lim h,
        (snd (ensurePlaylists ag h))
          \<lparr>arrays := (arrays h)(storeOf h ag := arrays h (storeOf h ag) @ [lim h]),
           objects := (objects h)(lim h := \<lparr>mood = m, songs = []\<rparr>),
           lim := Suc (lim h)\<rparr>)"
  by (simp add: getOrCreatePlaylist_def storeOf_def split_beta Let_def ensurePlaylists_fields)

lemma agents_getOrCreatePlaylist:
  "agents (snd (getOrCreatePlaylist lc ag m h)) = agents (snd (ensurePlaylists ag h))"
  by (cases "findPlaylist lc h (storeOf h ag) m")
     (simp_all add: getOrCreatePlaylist_found getOrCreatePlaylist_created)

lemma storeOf_agents: "agents h' ag = agents h ag \<Longrightarrow> storeOf h' ag = storeOf h ag"
  by (simp add: storeOf_def ensurePlaylists_def split: option.splits)

lemma storeOf_getOrCreatePlaylist [simp]:
  "storeOf (snd (getOrCreatePlaylist lc ag m h)) ag = storeOf h ag"
  using storeOf_agents [of "snd (getOrCreatePlaylist lc ag m h)" ag "snd (ensurePlaylists ag h)"]
  by (simp add: agents_getOrCreatePlaylist)

lemma findPlaylist_getOrCreatePlaylist:
  assumes "lc m' = lc m"
  shows "findPlaylist lc (snd (getOrCreatePlaylist lc ag m h)) (storeOf h ag) m'
           = Some (fst (getOrCreatePlaylist lc ag m h))"
proof (cases "findPlaylist lc h (storeOf h ag) m")
  case (Some p)
  moreover have "findPlaylist lc h (storeOf h ag) m' = findPlaylist lc h (storeOf h ag) m"
    by (simp add: findPlaylist_def assms)
  ultimately show ?thesis
    by (simp add: getOrCreatePlaylist_found)
next
  case None
  then have no: "\<forall>x \<in> set (arrays h (storeOf h ag)). lc (mood (objects h x)) \<noteq> lc m"
    by (simp add: findPlaylist_def find_None_iff)
  show ?thesis
    unfolding getOrCreatePlaylist_created [OF None]
    using no by (simp add: findPlaylist_def assms find_snoc_fresh)
qed

lemma songs_getOrCreatePlaylist:
  "songs (objects (snd (getOrCreatePlaylist lc ag m h)) (fst (getOrCreatePlaylist lc ag m h)))
     = songsOf lc h (storeOf h ag) m"
  by (cases "findPlaylist lc h (storeOf h ag) m")
     (simp_all add: getOrCreatePlaylist_found getOrCreatePlaylist_created songsOf_def
        ensurePlaylists_fields)

subsection \<open>Adding songs\<close>

lemma findPlaylist_pushSongs [simp]:
  "findPlaylist lc (pushSongs p xs h) ps m = findPlaylist lc h ps m"
  by (rule findPlaylist_cong) (simp_all add: pushSongs_def)

lemma songs_pushSongs [simp]:
  "songs (objects (pushSongs p xs h) p) = songs (objects h p) @ xs"
  by (simp add: pushSongs_def)

lemma storeOf_pushSongs [simp]: "storeOf (pushSongs p xs h) ag = storeOf h ag"
  by (rule storeOf_agents) (simp add: pushSongs_def)

lemma snd_addSong:
  "snd (addSong lc ag t a m h) =
     pushSongs (fst (getOrCreatePlaylist lc ag m h)) [\<lparr>title = t, artist = a\<rparr>]
       (snd (getOrCreatePlaylist lc ag m h))"
  by (simp add: addSong_def split_beta Let_def)

lemma storeOf_addSong [simp]: "storeOf (snd (addSong lc ag t a m h)) ag = storeOf h ag"
  by (simp add: snd_addSong)

lemma findPlaylist_addSong:
  "findPlaylist lc (snd (addSong lc ag t a m h)) (storeOf h ag) m
     = Some (fst (getOrCreatePlaylist lc ag m h))"
  by (simp add: snd_addSong findPlaylist_getOrCreatePlaylist)

lemma songsOf_addSong:
  "songsOf lc (snd (addSong lc ag t a m h)) (storeOf h ag) m
     = songsOf lc h (storeOf h ag) m @ [\<lparr>title = t, artist = a\<rparr>]"
  unfolding songsOf_def [of lc "snd (addSong lc ag t a m h)"] findPlaylist_addSong
  by (simp add: snd_addSong songs_getOrCreatePlaylist)

lemma addSongs_Cons:
  "addSongs lc ag m (s # xs) h = addSongs lc ag m xs (snd (addSong lc ag (title s) (artist s) m h))"
  by (simp add: addSongs_def)

lemma storeOf_addSongs [simp]: "storeOf (addSongs lc ag m xs h) ag = storeOf h ag"
  by (induction xs arbitrary: h) (simp_all add: addSongs_Cons, simp add: addSongs_def)

lemma songsOf_addSongs:
  "songsOf lc (addSongs lc ag m xs h) (storeOf h ag) m = songsOf lc h (storeOf h ag) m @ xs"
proof (induction xs arbitrary: h)
  case Nil
  show ?case by (simp add: addSongs_def)
next
  case (Cons s xs)
  have "songsOf lc (addSongs lc ag m (s # xs) h) (storeOf h ag) m
          = songsOf lc (snd (addSong lc ag (title s) (artist s) m h)) (storeOf h ag) m @ xs"
    using Cons [of "snd (addSong lc ag (title s) (artist s) m h)"] by (simp add: addSongs_Cons)
  then show ?case by (simp add: songsOf_addSong)
qed

lemma findPlaylist_addSongs:
  "xs \<noteq> [] \<Longrightarrow> findPlaylist lc (addSongs lc ag m xs h) (storeOf h ag) m \<noteq> None"
proof (induction xs arbitrary: h)
  case Nil
  then show ?case by simp
next
  case (Cons s xs)
  show ?case
  proof (cases "xs = []")
    case True
    then show ?thesis by (simp add: addSongs_def findPlaylist_addSong)
  next
    case False
    from Cons.IH [OF False, of "snd (addSong lc ag (title s) (artist s) m h)"]
    show ?thesis by (simp add: addSongs_Cons)
  qed
qed

lemma agents_pushSongs [simp]: "agents (pushSongs p xs h) = agents h"
  by (simp add: pushSongs_def)

lemma agents_addSong:
  "agents (snd (addSong lc ag t a m h)) = agents (snd (ensurePlaylists ag h))"
  by (simp add: snd_addSong agents_getOrCreatePlaylist)

lemma storeOf_None: "playlists (agents h ag) = None \<Longrightarrow> storeOf h ag = globalPlaylists"
  by (simp add: storeOf_def ensurePlaylists_def)

lemma fst_getSongsByMood:
  "fst (getSongsByMood lc ag m h) =
     (case findPlaylist lc h (storeOf h ag) m of
        None \<Rightarrow> Inl TypeError
      | Some p \<Rightarrow> Inr (join (lit '', '') (map showSong (songs (objects h p)))))"
  by (simp add: getSongsByMood_absent getSongsByMood_present split: option.splits)

lemma songsOf_initial: "songsOf lc initial ps m = []"
  by (simp add: songsOf_def findPlaylist_initial)

lemma snd_confirm_true:
  "snd (confirmAddRecommendedSongs lc ag (Some True) rs m h) =
     pushSongs (fst (getOrCreatePlaylist lc ag m h)) rs (snd (getOrCreatePlaylist lc ag m h))"
  by (simp add: confirmAddRecommendedSongs_def split_beta Let_def)

lemma getOrCreatePlaylist_initial:
  "getOrCreatePlaylist lc ag m initial =
     (0, (snd (ensurePlaylists ag initial))
           \<lparr>arrays := (\<lambda>_. [])(globalPlaylists := [0]),
            objects := (objects initial)(0 := \<lparr>mood = m, songs = []\<rparr>),
            lim := Suc 0\<rparr>)"
  using getOrCreatePlaylist_created [of lc initial ag m]
  by (simp add: findPlaylist_initial storeOf_initial) (simp add: initial_def)

lemma snd_recommendSongs: "snd (recommendSongs lc ag m h) = snd (ensurePlaylists ag h)"
  by (simp add: recommendSongs_def split_beta Let_def split: option.splits)

subsection \<open>The store keeps its moods distinct\<close>

lemma getOrCreatePlaylist_idem:
  assumes "lc m2 = lc m1"
  shows "getOrCreatePlaylist lc ag m2 (snd (getOrCreatePlaylist lc ag m1 h)) = getOrCreatePlaylist lc ag m1 h"
proof -
  let ?h = "snd (getOrCreatePlaylist lc ag m1 h)"
  have f: "findPlaylist lc ?h (storeOf ?h ag) m2 = Some (fst (getOrCreatePlaylist lc ag m1 h))"
    using findPlaylist_getOrCreatePlaylist [of lc m2 m1 ag h, OF assms] by simp
  have "playlists (agents ?h ag) = Some (storeOf h ag)"
    by (simp add: agents_getOrCreatePlaylist ensurePlaylists_agents)
  then have "snd (ensurePlaylists ag ?h) = ?h"
    by (simp add: ensurePlaylists_def)
  with getOrCreatePlaylist_found [OF f] show ?thesis
    by simp
qed

lemma mood_getOrCreatePlaylist:
  "mood (objects (snd (getOrCreatePlaylist lc ag m h)) (fst (getOrCreatePlaylist lc ag m h)))
     = (case findPlaylist lc h (storeOf h ag) m of None \<Rightarrow> m | Some p \<Rightarrow> mood (objects h p))"
  by (cases "findPlaylist lc h (storeOf h ag) m")
     (simp_all add: getOrCreatePlaylist_found getOrCreatePlaylist_created ensurePlaylists_fields)

lemma allocated_getOrCreatePlaylist:
  "allocated h \<Longrightarrow> allocated (snd (getOrCreatePlaylist lc ag m h))"
  by (cases "findPlaylist lc h (storeOf h ag) m")
     (auto simp add: getOrCreatePlaylist_found getOrCreatePlaylist_created ensurePlaylists_fields
        allocated_def less_Suc_eq)

lemma uniqueMoods_getOrCreatePlaylist:
  assumes "allocated h" and "uniqueMoods lc h"
  shows "uniqueMoods lc (snd (getOrCreatePlaylist lc ag m h))"
proof (cases "findPlaylist lc h (storeOf h ag) m")
  case (Some p)
  with assms(2) show ?thesis
    by (simp add: getOrCreatePlaylist_found uniqueMoods_def ensurePlaylists_fields)
next
  case None
  define f where "f = (\<lambda>p. lc (mood (objects h p)))"
  define g where "g = (\<lambda>p. lc (mood (((objects h)(lim h := \<lparr>mood = m, songs = []\<rparr>)) p)))"
  have same: "map g (arrays h a) = map f (arrays h a)" for a
    using assms(1) by (auto simp add: allocated_def f_def g_def)
  have g_new: "g (lim h) = lc m"
    by (simp add: g_def)
  have new: "lc m \<notin> set (map f (arrays h (storeOf h ag)))"
    using None by (auto simp add: findPlaylist_def find_None_iff f_def)
  have old: "distinct (map f (arrays h a))" for a
    using assms(2) by (simp add: uniqueMoods_def f_def)
  have "distinct (map g (((arrays h)(storeOf h ag := arrays h (storeOf h ag) @ [lim h])) a))" for a
  proof (cases "a = storeOf h ag")
    case True
    have eq: "map g (arrays h (storeOf h ag) @ [lim h])
                = map f (arrays h (storeOf h ag)) @ [lc m]"
      by (simp only: map_append same list.map g_new)
    have "distinct (map f (arrays h (storeOf h ag)) @ [lc m])"
      using new old [of "storeOf h ag"] by simp
    then show ?thesis
      by (simp only: True fun_upd_same eq)
  next
    case False
    with old [of a] show ?thesis
      by (simp add: same)
  qed
  then show ?thesis
    by (simp add: getOrCreatePlaylist_created [OF None] uniqueMoods_def g_def)
qed

lemma getOrCreateAll_Cons:
  "getOrCreateAll lc ((ag, m) # cs) h = getOrCreateAll lc cs (snd (getOrCreatePlaylist lc ag m h))"
  by (simp add: getOrCreateAll_def)

lemma invariant_getOrCreateAll:
  "allocated h \<Longrightarrow> uniqueMoods lc h \<Longrightarrow>
     allocated (getOrCreateAll lc cs h) \<and> uniqueMoods lc (getOrCreateAll lc cs h)"
proof (induction cs arbitrary: h)
  case Nil
  then show ?case by (simp add: getOrCreateAll_def)
next
  case (Cons c cs)
  obtain ag m where c: "c = (ag, m)" by (cases c)
  show ?case
    unfolding c getOrCreateAll_Cons
    by (rule Cons.IH) (simp_all add: Cons.prems allocated_getOrCreatePlaylist
          uniqueMoods_getOrCreatePlaylist)
qed

lemma allocated_initial: "allocated initial"
  by (simp add: allocated_def initial_def)

lemma uniqueMoods_initial: "uniqueMoods lc initial"
  by (simp add: uniqueMoods_def initial_def)

subsection \<open>The calls made to the service\<close>

lemma resolveTracks_Inr:
  "(\<forall>s \<in> set xs. isWellFormed (query s) \<and> (\<exists>items. search svc (query s) = Inr items)) \<Longrightarrow>
     resolveTracks svc xs trackUris calls =
       (Inr (trackUris @ concat (map (firstMatch svc) xs)), calls @ map (\<lambda>s. Search (query s)) xs)"
proof (induction xs arbitrary: trackUris calls)
  case Nil
  show ?case by simp
next
  case (Cons s xs)
  then obtain items where t: "search svc (query s) = Inr items" and w: "isWellFormed (query s)"
    by auto
  have "resolveTracks svc (s # xs) trackUris calls =
          resolveTracks svc xs
            (case items of [] \<Rightarrow> trackUris | track # _ \<Rightarrow> trackUris @ [track])
            (calls @ [Search (query s)])"
    by (simp add: t w)
  also have "\<dots> = (Inr ((case items of [] \<Rightarrow> trackUris | track # _ \<Rightarrow> trackUris @ [track])
                          @ concat (map (firstMatch svc) xs)),
                   (calls @ [Search (query s)]) @ map (\<lambda>s. Search (query s)) xs)"
    using Cons.prems by (intro Cons.IH) simp
  also have "\<dots> = (Inr (trackUris @ concat (map (firstMatch svc) (s # xs))),
                   calls @ map (\<lambda>s. Search (query s)) (s # xs))"
    by (cases items) (simp_all add: firstMatch_def t)
  finally show ?case .
qed

text \<open>The tool once the playlist is found, the account read and the remote playlist created.\<close>

lemma createSpotifyPlaylist_created:
  assumes "findPlaylist lc h (storeOf h ag) m = Some p" and "songs (objects h p) \<noteq> []"
    and "me svc = Inr uid"
    and \<open>createPlaylist svc uid playlistName
            (lit ''Playlist generated from your "'' @ m @ lit ''" songs'') = Inr created\<close>
  shows \<open>createSpotifyPlaylist lc ag svc m playlistName h =
           (case resolveTracks svc (songs (objects h p)) []
                   [GetMe, PostPlaylist uid playlistName
                             (lit ''Playlist generated from your "'' @ m @ lit ''" songs'')] of
              (Inl e, calls1) \<Rightarrow> (Inl e, calls1, snd (ensurePlaylists ag h))
            | (Inr trackUris, calls1) \<Rightarrow>
                (case attachTracks svc created trackUris calls1 of
                   (Inl e, calls2) \<Rightarrow> (Inl e, calls2, snd (ensurePlaylists ag h))
                 | (Inr _, calls2) \<Rightarrow>
                     (case spotify_url created of
                        Inl e \<Rightarrow> (Inl e, calls2, snd (ensurePlaylists ag h))
                      | Inr url \<Rightarrow>
                          (Inr (lit ''Spotify playlist "'' @ playlistName
                                @ lit ''" created! Listen here: '' @ url),
                           calls2, snd (ensurePlaylists ag h)))))\<close>
  using assms
  by (simp add: createSpotifyPlaylist_def storeOf_def split_beta Let_def ensurePlaylists_fields)

lemma createSpotifyPlaylist_success:
  assumes "findPlaylist lc h (storeOf h ag) m = Some p" and "songs (objects h p) \<noteq> []"
    and "me svc = Inr uid"
    and \<open>createPlaylist svc uid playlistName
            (lit ''Playlist generated from your "'' @ m @ lit ''" songs'') = Inr created\<close>
    and "\<forall>s \<in> set (songs (objects h p)).
           isWellFormed (query s) \<and> (\<exists>items. search svc (query s) = Inr items)"
    and "concat (map (firstMatch svc) (songs (objects h p))) \<noteq> [] \<longrightarrow>
           playlist_id created = Inr pid
           \<and> addTracks svc pid (concat (map (firstMatch svc) (songs (objects h p)))) = Inr ()"
    and "spotify_url created = Inr url"
  shows \<open>createSpotifyPlaylist lc ag svc m playlistName h =
           (Inr (lit ''Spotify playlist "'' @ playlistName @ lit ''" created! Listen here: '' @ url),
            [GetMe, PostPlaylist uid playlistName
                      (lit ''Playlist generated from your "'' @ m @ lit ''" songs'')]
              @ map (\<lambda>s. Search (query s)) (songs (objects h p))
              @ (if concat (map (firstMatch svc) (songs (objects h p))) = [] then []
                 else [PostTracks pid (concat (map (firstMatch svc) (songs (objects h p))))]),
            snd (ensurePlaylists ag h))\<close>
proof -
  let ?xs = "songs (objects h p)"
  let ?uris = "concat (map (firstMatch svc) ?xs)"
  have r: "resolveTracks svc ?xs [] calls = (Inr ?uris, calls @ map (\<lambda>s. Search (query s)) ?xs)"
    for calls
    using resolveTracks_Inr [OF assms(5), of "[]" calls] by simp
  have a: "attachTracks svc created ?uris calls =
             (Inr (), calls @ (if ?uris = [] then [] else [PostTracks pid ?uris]))" for calls
    using assms(6) by (simp add: attachTracks_def)
  show ?thesis
    unfolding createSpotifyPlaylist_created [OF assms(1-4)] r
    by (simp add: a assms(7))
qed

lemma found_addSongs:
  assumes "xs \<noteq> []"
  obtains p where
    "findPlaylist lc (addSongs lc ag m xs initial) (storeOf (addSongs lc ag m xs initial) ag) m
       = Some p"
    and "songs (objects (addSongs lc ag m xs initial) p) = xs"
proof -
  obtain p where p: "findPlaylist lc (addSongs lc ag m xs initial) (storeOf initial ag) m = Some p"
    using findPlaylist_addSongs [OF assms, of lc ag m initial] by auto
  moreover have "songs (objects (addSongs lc ag m xs initial) p) = xs"
    using songsOf_addSongs [of lc ag m xs initial] p
    unfolding songsOf_initial by (simp add: songsOf_def)
  ultimately show thesis
    using that by simp
qed

lemma query_cases:
  "query s = (case artist s of
                None \<Rightarrow> title s
              | Some a \<Rightarrow> if a = [] then title s else title s @ lit '' '' @ a)"
  by (simp add: query_def truthy_def split: option.splits)

lemma firstMatch_cases:
  "firstMatch svc s = (case search svc (query s) of
                         Inl e \<Rightarrow> []
                       | Inr items \<Rightarrow> (case items of [] \<Rightarrow> [] | uri # _ \<Rightarrow> [uri]))"
  by (simp add: firstMatch_def split: sum.splits list.splits)

lemma catalog_fields:
  "me catalog = Inr (lit ''u1'')"
  "createPlaylist catalog uid name description =
     Inr \<lparr>playlist_id = Inr (lit ''pl1''),
          spotify_url = Inr (lit ''https://open.spotify.com/playlist/pl1'')\<rparr>"
  "search catalog q =
     Inr (if q = lit ''Song A'' then [lit ''spotify:track:a'', lit ''spotify:track:a2''] else [])"
  "addTracks catalog pid uris = Inr ()"
  by (simp_all add: catalog_def)

lemma brittle_fields:
  "me brittle = Inr (lit ''u1'')"
  "createPlaylist brittle uid name description =
     Inr \<lparr>playlist_id = Inr (lit ''pl1''),
          spotify_url = Inr (lit ''https://open.spotify.com/playlist/pl1'')\<rparr>"
  "search brittle q = Inl TypeError"
  by (simp_all add: brittle_def catalog_def)

lemma query_examples:
  "query songA = lit ''Song A''" "query songB = lit ''Song B Band''"
  "query songC = lit ''Song C''" "query songD = [0xD800]"
  by (simp_all add: query_def truthy_def songA_def songB_def songC_def songD_def lit_def)

lemma isWellFormed_examples:
  "isWellFormed (lit ''Song A'')" "isWellFormed (lit ''Song B Band'')"
  "isWellFormed (lit ''Song C'')" "\<not> isWellFormed [0xD800]"
  by (simp_all add: lit_def isHighSurrogate_def isLowSurrogate_def)

lemma firstMatch_examples:
  "firstMatch catalog songA = [lit ''spotify:track:a'']" "firstMatch catalog songB = []"
  "firstMatch catalog songC = []"
  by (simp_all add: firstMatch_def query_examples catalog_fields lit_def)

lemma lowerLatin1_examples:
  "lowerLatin1 (lit ''happy'') = lowerLatin1 (lit ''Happy'')"
  "lowerLatin1 (lit ''HAPPY'') = lowerLatin1 (lit ''Happy'')"
  "lowerLatin1 (lit ''sad'') = lowerLatin1 (lit ''Sad'')"
  "lowerLatin1 [0xE9, 0x74, 0xE9] = lowerLatin1 [0xC9, 0x74, 0xC9]"
  by (simp_all add: lowerLatin1_def lit_def)

subsection \<open>The steps of the workflow\<close>

lemma join_showSong_nonempty: "xs \<noteq> [] \<Longrightarrow> join sep (map showSong xs) \<noteq> []"
proof (cases xs)
  case Nil
  assume "xs \<noteq> []"
  with Nil show ?thesis by simp
next
  case (Cons x ys)
  then show ?thesis
    by (cases ys) (simp_all add: showSong_def lit_def)
qed

lemma confirm_absent:
  "confirmAddRecommendedSongs lc ag None recommendedSongs m h = (lit ''No songs were added.'', h)"
  by (simp add: confirmAddRecommendedSongs_def)

lemma run_publishes:
  assumes "findPlaylist lc h (storeOf h ag) m = Some p" and "songs (objects h p) \<noteq> []"
  shows "run lc ag svc m playlistName h =
           (fst (createSpotifyPlaylist lc ag svc m playlistName (snd (ensurePlaylists ag h))),
            [lit ''recommend songs'', lit ''confirm songs'', lit ''create Spotify playlist''],
            snd (createSpotifyPlaylist lc ag svc m playlistName (snd (ensurePlaylists ag h))))"
  using join_showSong_nonempty [OF assms(2), of "lit '', ''"]
  by (simp add: run_def getSongsByMood_present [OF assms(1)] confirm_absent split_beta)
     (simp add: lit_def)

lemma createSpotifyPlaylist_not_P:
  "fst (createSpotifyPlaylist lc ag svc m playlistName h) \<noteq> Inr (0x50 # rest)"
  by (simp add: createSpotifyPlaylist_def split_beta Let_def lit_def
        split: option.splits sum.splits prod.splits)

text \<open>Whatever the store and the service, no run ends with the message of cancellation.\<close>

lemma run_never_canceled:
  "fst (run lc ag svc m playlistName h) \<noteq> Inr (lit ''Playlist creation canceled by user.'')"
proof (cases "findPlaylist lc h (storeOf h ag) m")
  case None
  then show ?thesis
    by (simp add: run_def getSongsByMood_absent)
next
  case (Some p)
  show ?thesis
  proof (cases "songs (objects h p) = []")
    case True
    with Some show ?thesis
      by (simp add: run_def getSongsByMood_present lit_def)
  next
    case False
    with Some show ?thesis
      by (simp add: run_publishes lit_def createSpotifyPlaylist_not_P)
  qed
qed

section \<open>The claims\<close>

subsection \<open>C1: the workflow and the confirmation\<close>

text \<open>
  C1 says that a run whose confirmation is false ends after the second step as canceled and
  never reaches the third. The run takes no confirmation: its second step calls
  \<^verbatim>\<open>confirmAddRecommendedSongs\<close> with an object that has no \<^verbatim>\<open>confirm\<close>, the tool answers
  \<^verbatim>\<open>No songs were added.\<close>, a non-empty string, and the test \<^verbatim>\<open>!confirmed\<close> fails. For the mood
  \<^verbatim>\<open>Happy\<close> holding one song, the run goes through the three steps, calls the service and
  returns the message of \<^verbatim>\<open>createSpotifyPlaylist\<close>.
\<close>

theorem run_ignores_confirmation:
  \<open>fst (run lowerLatin1 1 catalog (lit ''Happy'') (lit ''Mix'')
          (addSongs lowerLatin1 1 (lit ''Happy'') [songA] initial))
     = Inr (lit ''Spotify playlist "Mix" created! Listen here: https://open.spotify.com/playlist/pl1'')
   \<and> fst (snd (run lowerLatin1 1 catalog (lit ''Happy'') (lit ''Mix'')
                  (addSongs lowerLatin1 1 (lit ''Happy'') [songA] initial)))
       = [lit ''recommend songs'', lit ''confirm songs'', lit ''create Spotify playlist'']
   \<and> fst (snd (snd (run lowerLatin1 1 catalog (lit ''Happy'') (lit ''Mix'')
                       (addSongs lowerLatin1 1 (lit ''Happy'') [songA] initial))))
       = [GetMe,
          PostPlaylist (lit ''u1'') (lit ''Mix'') (lit ''Playlist generated from your "Happy" songs''),
          Search (lit ''Song A''), PostTracks (lit ''pl1'') [lit ''spotify:track:a'']]\<close>
proof -
  let ?h = "addSongs lowerLatin1 1 (lit ''Happy'') [songA] initial"
  let ?h1 = "snd (ensurePlaylists 1 ?h)"
  let ?created = "\<lparr>playlist_id = Inr (lit ''pl1''),
                   spotify_url = Inr (lit ''https://open.spotify.com/playlist/pl1'')\<rparr>"
  obtain p where p: "findPlaylist lowerLatin1 ?h (storeOf ?h 1) (lit ''Happy'') = Some p"
    and xs: "songs (objects ?h p) = [songA]"
    by (rule found_addSongs [of "[songA]" lowerLatin1 1 "lit ''Happy''"]) simp_all
  have p1: "findPlaylist lowerLatin1 ?h1 (storeOf ?h1 1) (lit ''Happy'') = Some p"
    using p by simp
  have xs1: "songs (objects ?h1 p) = [songA]"
    using xs by (simp add: ensurePlaylists_fields)
  have pub: \<open>createSpotifyPlaylist lowerLatin1 1 catalog (lit ''Happy'') (lit ''Mix'') ?h1 =
          (Inr (lit ''Spotify playlist "Mix" created! Listen here: https://open.spotify.com/playlist/pl1''),
           [GetMe,
            PostPlaylist (lit ''u1'') (lit ''Mix'') (lit ''Playlist generated from your "Happy" songs''),
            Search (lit ''Song A''), PostTracks (lit ''pl1'') [lit ''spotify:track:a'']],
           snd (ensurePlaylists 1 ?h1))\<close>
    using createSpotifyPlaylist_success [of lowerLatin1 ?h1 1 "lit ''Happy''" p catalog "lit ''u1''"
        "lit ''Mix''" ?created "lit ''pl1''" "lit ''https://open.spotify.com/playlist/pl1''", OF p1]
    unfolding xs1
    by (simp add: catalog_fields query_examples firstMatch_examples isWellFormed_examples)
       (simp add: lit_def)
  have "songs (objects ?h p) \<noteq> []"
    unfolding xs by simp
  from run_publishes [OF p this, of catalog "lit ''Mix''"] show ?thesis
    unfolding pub by simp
qed

subsection \<open>C2: reading a mood that has no playlist\<close>

text \<open>
  C2 says that every caller-facing operation, \<^verbatim>\<open>getSongsByMood\<close> for a mood with no stored
  playlist in particular, returns a status string and raises nothing. The source reads
  \<^verbatim>\<open>playlist.songs\<close> without the guard its two sibling tools have (the guard is there,
  commented out): on the empty store \<^verbatim>\<open>getSongsByMood\<close> for the mood \<^verbatim>\<open>Sad\<close> raises
  \<^verbatim>\<open>TypeError\<close>.
\<close>

theorem getSongsByMood_raises:
  "fst (getSongsByMood lowerLatin1 1 (lit ''Sad'') initial) = Inl TypeError"
  by (simp add: getSongsByMood_absent findPlaylist_initial)

subsection \<open>C3: agents without a \<^verbatim>\<open>playlists\<close> field share the global array\<close>

text \<open>
  C3: for two distinct agents that carry no \<^verbatim>\<open>playlists\<close> field, \<^verbatim>\<open>ensurePlaylists\<close> binds
  both to the module-level array \<^verbatim>\<open>globalPlaylists\<close>, and a song that one of them adds with
  \<^verbatim>\<open>addSong\<close> is read by the other with \<^verbatim>\<open>getSongsByMood\<close>: the text returned lists the songs
  the global array held for the mood, then the new song.
\<close>

theorem agents_share_global_playlists:
  assumes "playlists (agents h a1) = None" and "playlists (agents h a2) = None" and "a1 \<noteq> a2"
  shows "storeOf h a1 = globalPlaylists
         \<and> storeOf (snd (addSong lc a1 t a m h)) a2 = globalPlaylists
         \<and> fst (getSongsByMood lc a2 m (snd (addSong lc a1 t a m h)))
             = Inr (join (lit '', '') (map showSong
                      (songsOf lc h globalPlaylists m @ [\<lparr>title = t, artist = a\<rparr>])))"
proof -
  let ?h = "snd (addSong lc a1 t a m h)"
  have s1: "storeOf h a1 = globalPlaylists"
    using assms(1) by (rule storeOf_None)
  have "agents ?h a2 = agents h a2"
    using assms(3) by (simp add: agents_addSong ensurePlaylists_other)
  then have s2: "storeOf ?h a2 = globalPlaylists"
    using assms(2) by (simp add: storeOf_None)
  have f: "findPlaylist lc ?h globalPlaylists m = Some (fst (getOrCreatePlaylist lc a1 m h))"
    using findPlaylist_addSong [of lc a1 t a m h] by (simp add: s1)
  have "songsOf lc ?h globalPlaylists m = songsOf lc h globalPlaylists m @ [\<lparr>title = t, artist = a\<rparr>]"
    using songsOf_addSong [of lc a1 t a m h] by (simp add: s1)
  with f have "songs (objects ?h (fst (getOrCreatePlaylist lc a1 m h)))
                 = songsOf lc h globalPlaylists m @ [\<lparr>title = t, artist = a\<rparr>]"
    by (simp add: songsOf_def)
  with f s1 s2 show ?thesis
    by (simp add: fst_getSongsByMood)
qed

theorem agents_share_global_playlists_witness:
  \<open>playlists (agents initial 1) = None \<and> playlists (agents initial 2) = None \<and> (1::nat) \<noteq> 2
   \<and> storeOf initial 1 = globalPlaylists
   \<and> storeOf (snd (addSong lowerLatin1 1 (lit ''Song A'') None (lit ''Happy'') initial)) 2
       = globalPlaylists
   \<and> fst (getSongsByMood lowerLatin1 2 (lit ''Happy'')
             (snd (addSong lowerLatin1 1 (lit ''Song A'') None (lit ''Happy'') initial)))
       = Inr (lit ''"Song A"'')\<close>
  using agents_share_global_playlists
          [of initial 1 2 lowerLatin1 "lit ''Song A''" None "lit ''Happy''"]
  by (simp add: initial_def songsOf_initial [unfolded initial_def] showSong_def byArtist_def
        truthy_def lit_def)
subsection \<open>C4: one playlist per mood, whatever the case\<close>

text \<open>
  C4, for every function \<open>lc\<close> in the place of \<^verbatim>\<open>toLowerCase\<close>, two moods being equal up to
  case when \<open>lc\<close> gives the same string for both: for every heap and every two moods equal up
  to case, a call of \<^verbatim>\<open>getOrCreatePlaylist\<close>
  for the second after one for the first returns the same \<^verbatim>\<open>Playlist\<close> object and changes
  nothing. The mood stored in the object returned is the one it had, or, for a new object, the
  mood as given: the first casing seen is kept. Every sequence of calls, by any agents, keeps
  the moods of each array distinct in lower case, from any heap where they are (and whose
  arrays hold allocated objects only), the empty store in particular.
\<close>

theorem getOrCreatePlaylist_case_insensitive:
  "(lc m2 = lc m1 \<longrightarrow>
      getOrCreatePlaylist lc ag m2 (snd (getOrCreatePlaylist lc ag m1 h))
        = getOrCreatePlaylist lc ag m1 h)
   \<and> mood (objects (snd (getOrCreatePlaylist lc ag m1 h)) (fst (getOrCreatePlaylist lc ag m1 h)))
       = (case findPlaylist lc h (storeOf h ag) m1 of None \<Rightarrow> m1 | Some p \<Rightarrow> mood (objects h p))
   \<and> (allocated h \<and> uniqueMoods lc h \<longrightarrow>
        allocated (getOrCreateAll lc cs h) \<and> uniqueMoods lc (getOrCreateAll lc cs h))
   \<and> allocated (getOrCreateAll lc cs initial) \<and> uniqueMoods lc (getOrCreateAll lc cs initial)"
  using getOrCreatePlaylist_idem [of lc m2 m1 ag h] mood_getOrCreatePlaylist [of lc ag m1 h]
    invariant_getOrCreateAll [of h lc cs]
    invariant_getOrCreateAll [OF allocated_initial uniqueMoods_initial, of lc cs]
  by blast

theorem getOrCreatePlaylist_case_insensitive_witness:
  "lowerLatin1 (lit ''happy'') = lowerLatin1 (lit ''Happy'')
   \<and> getOrCreatePlaylist lowerLatin1 1 (lit ''happy'')
         (snd (getOrCreatePlaylist lowerLatin1 1 (lit ''Happy'') initial))
       = getOrCreatePlaylist lowerLatin1 1 (lit ''Happy'') initial
   \<and> fst (getOrCreatePlaylist lowerLatin1 1 (lit ''Happy'') initial) = 0
   \<and> mood (objects (snd (getOrCreatePlaylist lowerLatin1 1 (lit ''Happy'') initial)) 0)
       = lit ''Happy''
   \<and> allocated initial \<and> uniqueMoods lowerLatin1 initial
   \<and> uniqueMoods lowerLatin1
         (getOrCreateAll lowerLatin1 [(1, lit ''Happy''), (2, lit ''happy''), (1, lit ''HAPPY'')]
            initial)
   \<and> lowerLatin1 [0xE9, 0x74, 0xE9] = lowerLatin1 [0xC9, 0x74, 0xC9]
   \<and> getOrCreatePlaylist lowerLatin1 1 [0xE9, 0x74, 0xE9]
         (snd (getOrCreatePlaylist lowerLatin1 1 [0xC9, 0x74, 0xC9] initial))
       = getOrCreatePlaylist lowerLatin1 1 [0xC9, 0x74, 0xC9] initial"
proof -
  note t = getOrCreatePlaylist_case_insensitive
             [of lowerLatin1 "lit ''happy''" "lit ''Happy''" 1 initial
                 "[(1, lit ''Happy''), (2, lit ''happy''), (1, lit ''HAPPY'')]"]
  note u = getOrCreatePlaylist_case_insensitive
             [of lowerLatin1 "[0xE9, 0x74, 0xE9]" "[0xC9, 0x74, 0xC9]" 1 initial "[]"]
  have a: "lowerLatin1 (lit ''happy'') = lowerLatin1 (lit ''Happy'')"
    by (rule lowerLatin1_examples)
  have b: "fst (getOrCreatePlaylist lowerLatin1 1 (lit ''Happy'') initial) = 0"
    by (simp add: getOrCreatePlaylist_initial)
  have c: "mood (objects (snd (getOrCreatePlaylist lowerLatin1 1 (lit ''Happy'') initial)) 0)
             = lit ''Happy''"
    using t [THEN conjunct2, THEN conjunct1] unfolding b by (simp add: findPlaylist_initial)
  have d: "allocated initial \<and> uniqueMoods lowerLatin1 initial"
    by (simp add: allocated_initial uniqueMoods_initial)
  have e: "lowerLatin1 [0xE9, 0x74, 0xE9] = lowerLatin1 [0xC9, 0x74, 0xC9]"
    by (rule lowerLatin1_examples)
  from a b c d e t u show ?thesis by blast
qed

subsection \<open>C5: a declined confirmation\<close>

text \<open>
  C5: for every heap, every song list and every mood, \<^verbatim>\<open>confirmAddRecommendedSongs\<close> with
  \<^verbatim>\<open>confirm = false\<close> returns the acknowledgement \<^verbatim>\<open>No songs were added.\<close> and the heap it
  leaves is the heap it found: no playlist created, no song sequence touched.
\<close>

theorem confirm_false_no_mutation:
  "confirmAddRecommendedSongs lc ag (Some False) recommendedSongs m h
     = (lit ''No songs were added.'', h)"
  by (simp add: confirmAddRecommendedSongs_def)

theorem confirm_false_no_mutation_witness:
  "confirmAddRecommendedSongs lowerLatin1 1 (Some False) [songA, songB] (lit ''Happy'')
       (snd (addSong lowerLatin1 1 (lit ''Song C'') None (lit ''Happy'') initial))
   = (lit ''No songs were added.'',
      snd (addSong lowerLatin1 1 (lit ''Song C'') None (lit ''Happy'') initial))"
  using confirm_false_no_mutation [of lowerLatin1 1 "[songA, songB]" "lit ''Happy''"
      "snd (addSong lowerLatin1 1 (lit ''Song C'') None (lit ''Happy'') initial)"]
  by simp

subsection \<open>C6: an accepted confirmation\<close>

text \<open>
  C6: for every song list, the empty one included, and every mood,
  \<^verbatim>\<open>confirmAddRecommendedSongs\<close> with \<^verbatim>\<open>confirm = true\<close> returns the acknowledgement with the
  number of songs, and afterwards the mood has a playlist whose songs are the former ones
  followed by \<^verbatim>\<open>recommendedSongs\<close> in their order. When the mood had a playlist, only that
  playlist's songs change; when it had none, one is created at the end of the array with the
  mood as given and exactly these songs. Nothing is raised for the empty list.
\<close>

theorem confirm_true_appends:
  \<open>fst (confirmAddRecommendedSongs lc ag (Some True) rs m h)
     = lit ''Added '' @ numToString (length rs) @ (lit '' songs to your "'') @ m @ (lit ''" playlist.'')
   \<and> findPlaylist lc (snd (confirmAddRecommendedSongs lc ag (Some True) rs m h)) (storeOf h ag) m
       = Some (fst (getOrCreatePlaylist lc ag m h))
   \<and> songsOf lc (snd (confirmAddRecommendedSongs lc ag (Some True) rs m h)) (storeOf h ag) m
       = songsOf lc h (storeOf h ag) m @ rs
   \<and> (case findPlaylist lc h (storeOf h ag) m of
         Some p \<Rightarrow>
           snd (confirmAddRecommendedSongs lc ag (Some True) rs m h)
             = pushSongs p rs (snd (ensurePlaylists ag h))
       | None \<Rightarrow>
           snd (confirmAddRecommendedSongs lc ag (Some True) rs m h)
             = (snd (ensurePlaylists ag h))
                 \<lparr>arrays := (arrays h)(storeOf h ag := arrays h (storeOf h ag) @ [lim h]),
                  objects := (objects h)(lim h := \<lparr>mood = m, songs = rs\<rparr>),
                  lim := Suc (lim h)\<rparr>)\<close>
proof (intro conjI)
  let ?h = "snd (confirmAddRecommendedSongs lc ag (Some True) rs m h)"
  show \<open>fst (confirmAddRecommendedSongs lc ag (Some True) rs m h)
     = lit ''Added '' @ numToString (length rs) @ (lit '' songs to your "'') @ m @ (lit ''" playlist.'')\<close>
    by (simp add: confirmAddRecommendedSongs_def split_beta Let_def)
  show f: "findPlaylist lc ?h (storeOf h ag) m = Some (fst (getOrCreatePlaylist lc ag m h))"
    by (simp add: snd_confirm_true findPlaylist_getOrCreatePlaylist)
  show "songsOf lc ?h (storeOf h ag) m = songsOf lc h (storeOf h ag) m @ rs"
    unfolding songsOf_def [of lc ?h] f
    by (simp add: snd_confirm_true songs_getOrCreatePlaylist)
  show "case findPlaylist lc h (storeOf h ag) m of
         Some p \<Rightarrow> ?h = pushSongs p rs (snd (ensurePlaylists ag h))
       | None \<Rightarrow>
           ?h = (snd (ensurePlaylists ag h))
                 \<lparr>arrays := (arrays h)(storeOf h ag := arrays h (storeOf h ag) @ [lim h]),
                  objects := (objects h)(lim h := \<lparr>mood = m, songs = rs\<rparr>),
                  lim := Suc (lim h)\<rparr>"
  proof (cases "findPlaylist lc h (storeOf h ag) m")
    case None
    then show ?thesis
      by (simp add: snd_confirm_true getOrCreatePlaylist_created pushSongs_def)
  next
    case (Some p)
    then show ?thesis
      by (simp add: snd_confirm_true getOrCreatePlaylist_found)
  qed
qed

theorem confirm_true_appends_witness:
  \<open>fst (confirmAddRecommendedSongs lowerLatin1 1 (Some True) [songA, songB] (lit ''Chill'') initial)
     = lit ''Added 2 songs to your "Chill" playlist.''
   \<and> songsOf lowerLatin1 (snd (confirmAddRecommendedSongs lowerLatin1 1 (Some True) [songA, songB] (lit ''Chill'') initial))
        globalPlaylists (lit ''Chill'') = [songA, songB]
   \<and> arrays (snd (confirmAddRecommendedSongs lowerLatin1 1 (Some True) [songA, songB] (lit ''Chill'') initial))
        globalPlaylists = [0]
   \<and> fst (confirmAddRecommendedSongs lowerLatin1 1 (Some True) [] (lit ''Chill'') initial)
       = lit ''Added 0 songs to your "Chill" playlist.''\<close>
proof -
  note two = confirm_true_appends [of lowerLatin1 1 "[songA, songB]" "lit ''Chill''" initial]
  note zero = confirm_true_appends [of lowerLatin1 1 "[]" "lit ''Chill''" initial]
  have a: \<open>fst (confirmAddRecommendedSongs lowerLatin1 1 (Some True) [songA, songB] (lit ''Chill'') initial)
             = lit ''Added 2 songs to your "Chill" playlist.''\<close>
    using two [THEN conjunct1] by (simp add: numToString.simps lit_def)
  have b: "songsOf lowerLatin1 (snd (confirmAddRecommendedSongs lowerLatin1 1 (Some True) [songA, songB] (lit ''Chill'') initial))
             globalPlaylists (lit ''Chill'') = [songA, songB]"
    using two [THEN conjunct2, THEN conjunct2, THEN conjunct1]
    by (simp add: storeOf_initial songsOf_initial)
  have c: "arrays (snd (confirmAddRecommendedSongs lowerLatin1 1 (Some True) [songA, songB] (lit ''Chill'') initial))
             globalPlaylists = [0]"
    using two [THEN conjunct2, THEN conjunct2, THEN conjunct2]
    by (simp add: storeOf_initial findPlaylist_initial) (simp add: initial_def)
  have d: \<open>fst (confirmAddRecommendedSongs lowerLatin1 1 (Some True) [] (lit ''Chill'') initial)
             = lit ''Added 0 songs to your "Chill" playlist.''\<close>
    using zero [THEN conjunct1] by (simp add: numToString.simps lit_def)
  from a b c d show ?thesis by blast
qed

subsection \<open>C7: publishing a playlist\<close>

text \<open>
  C7 says that for every playlist with songs the tool makes one search per stored song, with
  the query \<^verbatim>\<open>"<title> <artist>"\<close> whenever an artist is present, and attaches the tracks found.
  Three playlists show where the source does otherwise.
  \<^item> The source tests \<^verbatim>\<open>song.artist\<close> for truthiness: for the playlist holding only
    \<^verbatim>\<open>{title: "Song C", artist: ""}\<close> the one search made is for \<^verbatim>\<open>Song C\<close>, none for
    \<^verbatim>\<open>Song C\<close> followed by a space.
  \<^item> An exception is not caught: when the reply to the first search has no \<^verbatim>\<open>tracks\<close>, the
    tool raises \<^verbatim>\<open>TypeError\<close> and the second song of the playlist is never searched.
  \<^item> \<^verbatim>\<open>encodeURIComponent\<close> raises \<^verbatim>\<open>URIError\<close> on a title that is a lone surrogate: the tool
    raises before any search is made.
\<close>

theorem createSpotifyPlaylist_counterexamples:
  \<open>(artist songC = Some []
     \<and> songsOf lowerLatin1 (addSongs lowerLatin1 1 (lit ''Focus'') [songC] initial)
          globalPlaylists (lit ''Focus'') = [songC]
     \<and> fst (snd (createSpotifyPlaylist lowerLatin1 1 catalog (lit ''Focus'') (lit ''Mix'')
                    (addSongs lowerLatin1 1 (lit ''Focus'') [songC] initial)))
         = [GetMe,
            PostPlaylist (lit ''u1'') (lit ''Mix'') (lit ''Playlist generated from your "Focus" songs''),
            Search (lit ''Song C'')]
     \<and> Search (title songC @ lit '' '' @ the (artist songC))
         \<notin> set (fst (snd (createSpotifyPlaylist lowerLatin1 1 catalog (lit ''Focus'') (lit ''Mix'')
                            (addSongs lowerLatin1 1 (lit ''Focus'') [songC] initial)))))
   \<and> (songsOf lowerLatin1 (addSongs lowerLatin1 1 (lit ''Focus'') [songA, songB] initial)
          globalPlaylists (lit ''Focus'') = [songA, songB]
      \<and> fst (createSpotifyPlaylist lowerLatin1 1 brittle (lit ''Focus'') (lit ''Mix'')
               (addSongs lowerLatin1 1 (lit ''Focus'') [songA, songB] initial))
          = Inl TypeError
      \<and> fst (snd (createSpotifyPlaylist lowerLatin1 1 brittle (lit ''Focus'') (lit ''Mix'')
                     (addSongs lowerLatin1 1 (lit ''Focus'') [songA, songB] initial)))
          = [GetMe,
             PostPlaylist (lit ''u1'') (lit ''Mix'') (lit ''Playlist generated from your "Focus" songs''),
             Search (lit ''Song A'')])
   \<and> (songsOf lowerLatin1 (addSongs lowerLatin1 1 (lit ''Focus'') [songD, songA] initial)
          globalPlaylists (lit ''Focus'') = [songD, songA]
      \<and> fst (createSpotifyPlaylist lowerLatin1 1 catalog (lit ''Focus'') (lit ''Mix'')
               (addSongs lowerLatin1 1 (lit ''Focus'') [songD, songA] initial))
          = Inl URIError
      \<and> fst (snd (createSpotifyPlaylist lowerLatin1 1 catalog (lit ''Focus'') (lit ''Mix'')
                     (addSongs lowerLatin1 1 (lit ''Focus'') [songD, songA] initial)))
          = [GetMe,
             PostPlaylist (lit ''u1'') (lit ''Mix'')
               (lit ''Playlist generated from your "Focus" songs'')])\<close>
proof -
  let ?created = "\<lparr>playlist_id = Inr (lit ''pl1''),
                   spotify_url = Inr (lit ''https://open.spotify.com/playlist/pl1'')\<rparr>"
  have stored: "songsOf lowerLatin1 (addSongs lowerLatin1 1 (lit ''Focus'') xs initial)
                  globalPlaylists (lit ''Focus'') = xs" for xs
    using songsOf_addSongs [of lowerLatin1 1 "lit ''Focus''" xs initial]
    by (simp add: storeOf_initial songsOf_initial)
  have first: \<open>fst (snd (createSpotifyPlaylist lowerLatin1 1 catalog (lit ''Focus'') (lit ''Mix'')
                    (addSongs lowerLatin1 1 (lit ''Focus'') [songC] initial)))
         = [GetMe,
            PostPlaylist (lit ''u1'') (lit ''Mix'') (lit ''Playlist generated from your "Focus" songs''),
            Search (lit ''Song C'')]\<close>
  proof -
    let ?h = "addSongs lowerLatin1 1 (lit ''Focus'') [songC] initial"
    obtain p where p: "findPlaylist lowerLatin1 ?h (storeOf ?h 1) (lit ''Focus'') = Some p"
      and xs: "songs (objects ?h p) = [songC]"
      by (rule found_addSongs [of "[songC]" lowerLatin1 1 "lit ''Focus''"]) simp_all
    show ?thesis
      using createSpotifyPlaylist_success [of lowerLatin1 ?h 1 "lit ''Focus''" p catalog "lit ''u1''"
          "lit ''Mix''" ?created "lit ''pl1''" "lit ''https://open.spotify.com/playlist/pl1''", OF p]
      unfolding xs
      by (simp add: catalog_fields query_examples firstMatch_examples isWellFormed_examples)
         (simp add: lit_def)
  qed
  have second: \<open>createSpotifyPlaylist lowerLatin1 1 brittle (lit ''Focus'') (lit ''Mix'')
               (addSongs lowerLatin1 1 (lit ''Focus'') [songA, songB] initial)
          = (Inl TypeError,
             [GetMe,
              PostPlaylist (lit ''u1'') (lit ''Mix'') (lit ''Playlist generated from your "Focus" songs''),
              Search (lit ''Song A'')],
             snd (ensurePlaylists 1 (addSongs lowerLatin1 1 (lit ''Focus'') [songA, songB] initial)))\<close>
  proof -
    let ?h = "addSongs lowerLatin1 1 (lit ''Focus'') [songA, songB] initial"
    obtain p where p: "findPlaylist lowerLatin1 ?h (storeOf ?h 1) (lit ''Focus'') = Some p"
      and xs: "songs (objects ?h p) = [songA, songB]"
      by (rule found_addSongs [of "[songA, songB]" lowerLatin1 1 "lit ''Focus''"]) simp_all
    have ne: "songs (objects ?h p) \<noteq> []"
      unfolding xs by simp
    show ?thesis
      unfolding createSpotifyPlaylist_created
                  [OF p ne brittle_fields(1) brittle_fields(2), of "lit ''Mix''"] xs
      by (simp add: brittle_fields query_examples isWellFormed_examples) (simp add: lit_def)
  qed
  have third: \<open>createSpotifyPlaylist lowerLatin1 1 catalog (lit ''Focus'') (lit ''Mix'')
               (addSongs lowerLatin1 1 (lit ''Focus'') [songD, songA] initial)
          = (Inl URIError,
             [GetMe,
              PostPlaylist (lit ''u1'') (lit ''Mix'') (lit ''Playlist generated from your "Focus" songs'')],
             snd (ensurePlaylists 1 (addSongs lowerLatin1 1 (lit ''Focus'') [songD, songA] initial)))\<close>
  proof -
    let ?h = "addSongs lowerLatin1 1 (lit ''Focus'') [songD, songA] initial"
    obtain p where p: "findPlaylist lowerLatin1 ?h (storeOf ?h 1) (lit ''Focus'') = Some p"
      and xs: "songs (objects ?h p) = [songD, songA]"
      by (rule found_addSongs [of "[songD, songA]" lowerLatin1 1 "lit ''Focus''"]) simp_all
    have ne: "songs (objects ?h p) \<noteq> []"
      unfolding xs by simp
    show ?thesis
      unfolding createSpotifyPlaylist_created
                  [OF p ne catalog_fields(1) catalog_fields(2), of "lit ''Mix''"] xs
      by (simp add: query_examples isHighSurrogate_def isLowSurrogate_def) (simp add: lit_def)
  qed
  have absent: \<open>Search (title songC @ lit '' '' @ the (artist songC))
                  \<notin> set [GetMe,
                           PostPlaylist (lit ''u1'') (lit ''Mix'')
                             (lit ''Playlist generated from your "Focus" songs''),
                           Search (lit ''Song C'')]\<close>
    by (simp add: songC_def lit_def)
  have "artist songC = Some []"
    by (simp add: songC_def)
  with stored [of "[songC]"] stored [of "[songA, songB]"] stored [of "[songD, songA]"]
    first second third absent
  show ?thesis
    by simp
qed

text \<open>
  C7 as amended: for a mood whose playlist has songs, when nothing raises (no request, no read
  of a reply, no \<^verbatim>\<open>encodeURIComponent\<close> of a query), \<^verbatim>\<open>createSpotifyPlaylist\<close> returns the
  message with the URL of the remote playlist, and the calls it makes are, in this order: the
  account request, the creation of the remote playlist, one search for each stored song in
  stored order, and, when at least one search returned an item, one request attaching the
  first item of each search that returned any, in the order of their songs (no such request
  when no search returned an item). The query of a song is \<^verbatim>\<open>"<title> <artist>"\<close> when its
  artist is present and not empty, and its title when the artist is absent or empty.
\<close>

theorem createSpotifyPlaylist_publishes:
  assumes "findPlaylist lc h (storeOf h ag) m = Some p" and "songs (objects h p) \<noteq> []"
    and "me svc = Inr uid"
    and \<open>createPlaylist svc uid playlistName
            (lit ''Playlist generated from your "'' @ m @ lit ''" songs'') = Inr created\<close>
    and "\<forall>s \<in> set (songs (objects h p)).
           isWellFormed (query s) \<and> (\<exists>items. search svc (query s) = Inr items)"
    and "concat (map (firstMatch svc) (songs (objects h p))) \<noteq> [] \<longrightarrow>
           playlist_id created = Inr pid
           \<and> addTracks svc pid (concat (map (firstMatch svc) (songs (objects h p)))) = Inr ()"
    and "spotify_url created = Inr url"
  shows \<open>createSpotifyPlaylist lc ag svc m playlistName h =
           (Inr (lit ''Spotify playlist "'' @ playlistName @ lit ''" created! Listen here: '' @ url),
            [GetMe, PostPlaylist uid playlistName
                      (lit ''Playlist generated from your "'' @ m @ lit ''" songs'')]
              @ map (\<lambda>s. Search (query s)) (songs (objects h p))
              @ (if concat (map (firstMatch svc) (songs (objects h p))) = [] then []
                 else [PostTracks pid (concat (map (firstMatch svc) (songs (objects h p))))]),
            snd (ensurePlaylists ag h))
         \<and> (\<forall>s. query s = (case artist s of
                              None \<Rightarrow> title s
                            | Some a \<Rightarrow> if a = [] then title s else title s @ lit '' '' @ a))
         \<and> (\<forall>s. firstMatch svc s = (case search svc (query s) of
                                       Inl e \<Rightarrow> []
                                     | Inr items \<Rightarrow> (case items of [] \<Rightarrow> [] | uri # _ \<Rightarrow> [uri])))\<close>
  using createSpotifyPlaylist_success [OF assms] query_cases firstMatch_cases by blast

theorem createSpotifyPlaylist_publishes_witness:
  \<open>songsOf lowerLatin1 (addSongs lowerLatin1 1 (lit ''Happy'') [songA, songB] initial)
      globalPlaylists (lit ''Happy'') = [songA, songB]
   \<and> search catalog (query songA) = Inr [lit ''spotify:track:a'', lit ''spotify:track:a2'']
   \<and> search catalog (query songB) = Inr []
   \<and> fst (createSpotifyPlaylist lowerLatin1 1 catalog (lit ''Happy'') (lit ''Mix'')
             (addSongs lowerLatin1 1 (lit ''Happy'') [songA, songB] initial))
       = Inr (lit ''Spotify playlist "Mix" created! Listen here: https://open.spotify.com/playlist/pl1'')
   \<and> fst (snd (createSpotifyPlaylist lowerLatin1 1 catalog (lit ''Happy'') (lit ''Mix'')
                  (addSongs lowerLatin1 1 (lit ''Happy'') [songA, songB] initial)))
       = [GetMe,
          PostPlaylist (lit ''u1'') (lit ''Mix'') (lit ''Playlist generated from your "Happy" songs''),
          Search (lit ''Song A''), Search (lit ''Song B Band''),
          PostTracks (lit ''pl1'') [lit ''spotify:track:a'']]
   \<and> fst (createSpotifyPlaylist lowerLatin1 1 catalog (lit ''Happy'') (lit ''Mix'')
             (addSongs lowerLatin1 1 (lit ''Happy'') [songB] initial))
       = Inr (lit ''Spotify playlist "Mix" created! Listen here: https://open.spotify.com/playlist/pl1'')
   \<and> fst (snd (createSpotifyPlaylist lowerLatin1 1 catalog (lit ''Happy'') (lit ''Mix'')
                  (addSongs lowerLatin1 1 (lit ''Happy'') [songB] initial)))
       = [GetMe,
          PostPlaylist (lit ''u1'') (lit ''Mix'') (lit ''Playlist generated from your "Happy" songs''),
          Search (lit ''Song B Band'')]\<close>
proof -
  let ?h2 = "addSongs lowerLatin1 1 (lit ''Happy'') [songA, songB] initial"
  let ?h1 = "addSongs lowerLatin1 1 (lit ''Happy'') [songB] initial"
  let ?created = "\<lparr>playlist_id = Inr (lit ''pl1''),
                   spotify_url = Inr (lit ''https://open.spotify.com/playlist/pl1'')\<rparr>"
  have a: "songsOf lowerLatin1 ?h2 globalPlaylists (lit ''Happy'') = [songA, songB]"
    using songsOf_addSongs [of lowerLatin1 1 "lit ''Happy''" "[songA, songB]" initial]
    by (simp add: storeOf_initial songsOf_initial)
  have s: "search catalog (query songA) = Inr [lit ''spotify:track:a'', lit ''spotify:track:a2'']"
    "search catalog (query songB) = Inr []"
    by (simp_all add: catalog_fields query_examples lit_def)
  obtain p where p: "findPlaylist lowerLatin1 ?h2 (storeOf ?h2 1) (lit ''Happy'') = Some p"
    and xs: "songs (objects ?h2 p) = [songA, songB]"
    by (rule found_addSongs [of "[songA, songB]" lowerLatin1 1 "lit ''Happy''"]) simp_all
  have two: \<open>createSpotifyPlaylist lowerLatin1 1 catalog (lit ''Happy'') (lit ''Mix'') ?h2 =
          (Inr (lit ''Spotify playlist "Mix" created! Listen here: https://open.spotify.com/playlist/pl1''),
           [GetMe,
            PostPlaylist (lit ''u1'') (lit ''Mix'') (lit ''Playlist generated from your "Happy" songs''),
            Search (lit ''Song A''), Search (lit ''Song B Band''),
            PostTracks (lit ''pl1'') [lit ''spotify:track:a'']],
           snd (ensurePlaylists 1 ?h2))\<close>
    using createSpotifyPlaylist_publishes [of lowerLatin1 ?h2 1 "lit ''Happy''" p catalog "lit ''u1''"
        "lit ''Mix''" ?created "lit ''pl1''" "lit ''https://open.spotify.com/playlist/pl1''", OF p]
    unfolding xs
    by (simp add: catalog_fields query_examples firstMatch_examples isWellFormed_examples)
       (simp add: lit_def)
  obtain q where q: "findPlaylist lowerLatin1 ?h1 (storeOf ?h1 1) (lit ''Happy'') = Some q"
    and ys: "songs (objects ?h1 q) = [songB]"
    by (rule found_addSongs [of "[songB]" lowerLatin1 1 "lit ''Happy''"]) simp_all
  have one: \<open>createSpotifyPlaylist lowerLatin1 1 catalog (lit ''Happy'') (lit ''Mix'') ?h1 =
          (Inr (lit ''Spotify playlist "Mix" created! Listen here: https://open.spotify.com/playlist/pl1''),
           [GetMe,
            PostPlaylist (lit ''u1'') (lit ''Mix'') (lit ''Playlist generated from your "Happy" songs''),
            Search (lit ''Song B Band'')],
           snd (ensurePlaylists 1 ?h1))\<close>
    using createSpotifyPlaylist_publishes [of lowerLatin1 ?h1 1 "lit ''Happy''" q catalog "lit ''u1''"
        "lit ''Mix''" ?created "lit ''pl1''" "lit ''https://open.spotify.com/playlist/pl1''", OF q]
    unfolding ys
    by (simp add: catalog_fields query_examples firstMatch_examples isWellFormed_examples)
       (simp add: lit_def)
  from a s two one show ?thesis by simp
qed

subsection \<open>C8: nothing to publish\<close>

text \<open>
  C8: when the mood has no playlist, or its playlist has no song, \<^verbatim>\<open>createSpotifyPlaylist\<close>
  returns the message \<^verbatim>\<open>No songs found in your "<mood>" playlist.\<close> and the list of calls made
  to the service is empty.
\<close>

theorem createSpotifyPlaylist_nothing_to_publish:
  assumes "findPlaylist lc h (storeOf h ag) m = None
           \<or> (\<exists>p. findPlaylist lc h (storeOf h ag) m = Some p \<and> songs (objects h p) = [])"
  shows \<open>createSpotifyPlaylist lc ag svc m playlistName h =
           (Inr (lit ''No songs found in your "'' @ m @ lit ''" playlist.''), [],
            snd (ensurePlaylists ag h))\<close>
  using assms
  by (auto simp add: createSpotifyPlaylist_def storeOf_def split_beta ensurePlaylists_fields)

theorem createSpotifyPlaylist_nothing_to_publish_witness:
  \<open>findPlaylist lowerLatin1 initial (storeOf initial 1) (lit ''Sad'') = None
   \<and> fst (createSpotifyPlaylist lowerLatin1 1 catalog (lit ''Sad'') (lit ''Mix'') initial)
       = Inr (lit ''No songs found in your "Sad" playlist.'')
   \<and> fst (snd (createSpotifyPlaylist lowerLatin1 1 catalog (lit ''Sad'') (lit ''Mix'') initial)) = []
   \<and> findPlaylist lowerLatin1 (snd (getOrCreatePlaylist lowerLatin1 1 (lit ''sad'') initial))
        (storeOf (snd (getOrCreatePlaylist lowerLatin1 1 (lit ''sad'') initial)) 1) (lit ''Sad'') = Some 0
   \<and> songs (objects (snd (getOrCreatePlaylist lowerLatin1 1 (lit ''sad'') initial)) 0) = []
   \<and> fst (createSpotifyPlaylist lowerLatin1 1 catalog (lit ''Sad'') (lit ''Mix'')
             (snd (getOrCreatePlaylist lowerLatin1 1 (lit ''sad'') initial)))
       = Inr (lit ''No songs found in your "Sad" playlist.'')
   \<and> fst (snd (createSpotifyPlaylist lowerLatin1 1 catalog (lit ''Sad'') (lit ''Mix'')
               (snd (getOrCreatePlaylist lowerLatin1 1 (lit ''sad'') initial)))) = []\<close>
proof -
  let ?h = "snd (getOrCreatePlaylist lowerLatin1 1 (lit ''sad'') initial)"
  have a: "findPlaylist lowerLatin1 initial (storeOf initial 1) (lit ''Sad'') = None"
    by (rule findPlaylist_initial)
  have "lowerLatin1 (lit ''Sad'') = lowerLatin1 (lit ''sad'')"
    by (rule lowerLatin1_examples(3) [symmetric])
  then have "findPlaylist lowerLatin1 ?h (storeOf initial 1) (lit ''Sad'')
               = Some (fst (getOrCreatePlaylist lowerLatin1 1 (lit ''sad'') initial))"
    by (rule findPlaylist_getOrCreatePlaylist)
  moreover have "storeOf ?h 1 = storeOf initial 1"
    by simp
  moreover have "fst (getOrCreatePlaylist lowerLatin1 1 (lit ''sad'') initial) = 0"
    by (simp add: getOrCreatePlaylist_initial)
  ultimately have b: "findPlaylist lowerLatin1 ?h (storeOf ?h 1) (lit ''Sad'') = Some 0"
    by simp
  have c: "songs (objects ?h 0) = []"
    by (simp add: getOrCreatePlaylist_initial)
  from b c have d: "findPlaylist lowerLatin1 ?h (storeOf ?h 1) (lit ''Sad'') = None
           \<or> (\<exists>p. findPlaylist lowerLatin1 ?h (storeOf ?h 1) (lit ''Sad'') = Some p
                    \<and> songs (objects ?h p) = [])"
    by simp
  show ?thesis
    using a b c
      createSpotifyPlaylist_nothing_to_publish
        [of lowerLatin1 initial 1 "lit ''Sad''" catalog "lit ''Mix''", OF disjI1, OF a]
      createSpotifyPlaylist_nothing_to_publish
        [of lowerLatin1 ?h 1 "lit ''Sad''" catalog "lit ''Mix''", OF d]
    by (simp add: lit_def)
qed

subsection \<open>C9: the two results of \<^verbatim>\<open>recommendSongs\<close>\<close>

text \<open>
  C9: when the mood has no playlist, or its playlist has no song, \<^verbatim>\<open>recommendSongs\<close> returns
  the message \<^verbatim>\<open>You don't have any songs in your "<mood>" playlist yet.\<close> and no prompt object.
  When the playlist has songs it returns the prompt object: it refers to the stored playlist,
  whose songs are untouched; its prompt lists every song, one line each in stored order, asks
  for 3 recommendations and asks the user to reply yes or no.
\<close>

theorem recommendSongs_cases:
  \<open>((findPlaylist lc h (storeOf h ag) m = None
      \<or> (\<exists>p. findPlaylist lc h (storeOf h ag) m = Some p \<and> songs (objects h p) = []))
     \<longrightarrow> fst (recommendSongs lc ag m h)
           = Text (lit ''You don't have any songs in your "'' @ m @ lit ''" playlist yet.''))
   \<and> (\<forall>p. findPlaylist lc h (storeOf h ag) m = Some p \<and> songs (objects h p) \<noteq> []
        \<longrightarrow> fst (recommendSongs lc ag m h) = LlmPrompt (promptFor m (songs (objects h p))) m p
            \<and> songs (objects (snd (recommendSongs lc ag m h)) p) = songs (objects h p)
            \<and> sublist (join nl (map (\<lambda>s. lit ''- '' @ showSong s) (songs (objects h p))))
                 (promptFor m (songs (objects h p)))
            \<and> sublist (lit ''Generate 3 similar song recommendations and ask the user'')
                 (promptFor m (songs (objects h p)))
            \<and> sublist (lit ''Reply yes or no.'') (promptFor m (songs (objects h p))))\<close>
proof (intro conjI impI allI)
  assume "findPlaylist lc h (storeOf h ag) m = None
      \<or> (\<exists>p. findPlaylist lc h (storeOf h ag) m = Some p \<and> songs (objects h p) = [])"
  then show \<open>fst (recommendSongs lc ag m h)
           = Text (lit ''You don't have any songs in your "'' @ m @ lit ''" playlist yet.'')\<close>
    by (auto simp add: recommendSongs_def storeOf_def split_beta Let_def ensurePlaylists_fields)
next
  fix p
  assume "findPlaylist lc h (storeOf h ag) m = Some p \<and> songs (objects h p) \<noteq> []"
  then show "fst (recommendSongs lc ag m h) = LlmPrompt (promptFor m (songs (objects h p))) m p"
    by (auto simp add: recommendSongs_def storeOf_def split_beta Let_def ensurePlaylists_fields)
next
  fix p
  show "songs (objects (snd (recommendSongs lc ag m h)) p) = songs (objects h p)"
    by (simp add: snd_recommendSongs ensurePlaylists_fields)
next
  fix p
  let ?xs = "songs (objects h p)"
  let ?lines = "join nl (map (\<lambda>s. lit ''- '' @ showSong s) ?xs)"
  show "sublist ?lines (promptFor m ?xs)"
    unfolding sublist_def promptFor_def
    by (rule exI [of _ \<open>nl @ lit ''      You are recommending songs similar to the user's "'' @ m
                         @ lit ''" playlist:'' @ nl @ lit ''      ''\<close>]) simp
  show "sublist (lit ''Generate 3 similar song recommendations and ask the user'')
          (promptFor m ?xs)"
    unfolding sublist_def promptFor_def
    by (rule exI [of _ \<open>nl @ lit ''      You are recommending songs similar to the user's "'' @ m
          @ lit ''" playlist:'' @ nl @ lit ''      '' @ ?lines @ nl @ nl @ lit ''      ''\<close>])
       (simp add: lit_def)
  show "sublist (lit ''Reply yes or no.'') (promptFor m ?xs)"
    unfolding sublist_def promptFor_def
    by (rule exI [of _ \<open>nl @ lit ''      You are recommending songs similar to the user's "'' @ m
          @ lit ''" playlist:'' @ nl @ lit ''      '' @ ?lines @ nl @ nl
          @ lit ''      Generate 3 similar song recommendations and ask the user: '' @ nl
          @ lit ''      "Do you want to add them to your '' @ m @ lit '' playlist? ''\<close>])
       (simp add: lit_def)
qed

theorem recommendSongs_cases_witness:
  \<open>findPlaylist lowerLatin1 initial (storeOf initial 1) (lit ''Sad'') = None
   \<and> fst (recommendSongs lowerLatin1 1 (lit ''Sad'') initial)
       = Text (lit ''You don't have any songs in your "Sad" playlist yet.'')
   \<and> findPlaylist lowerLatin1 (snd (addSong lowerLatin1 1 (lit ''Song A'') None (lit ''Happy'') initial))
        (storeOf (snd (addSong lowerLatin1 1 (lit ''Song A'') None (lit ''Happy'') initial)) 1)
        (lit ''Happy'') = Some 0
   \<and> songs (objects (snd (addSong lowerLatin1 1 (lit ''Song A'') None (lit ''Happy'') initial)) 0)
       = [songA]
   \<and> fst (recommendSongs lowerLatin1 1 (lit ''Happy'')
             (snd (addSong lowerLatin1 1 (lit ''Song A'') None (lit ''Happy'') initial)))
       = LlmPrompt (promptFor (lit ''Happy'') [songA]) (lit ''Happy'') 0\<close>
proof -
  let ?h = "snd (addSong lowerLatin1 1 (lit ''Song A'') None (lit ''Happy'') initial)"
  have a: "findPlaylist lowerLatin1 initial (storeOf initial 1) (lit ''Sad'') = None"
    by (rule findPlaylist_initial)
  have "fst (getOrCreatePlaylist lowerLatin1 1 (lit ''Happy'') initial) = 0"
    by (simp add: getOrCreatePlaylist_initial)
  then have b: "findPlaylist lowerLatin1 ?h (storeOf ?h 1) (lit ''Happy'') = Some 0"
    using findPlaylist_addSong [of lowerLatin1 1 "lit ''Song A''" None "lit ''Happy''" initial]
    by simp
  have "songsOf lowerLatin1 ?h (storeOf ?h 1) (lit ''Happy'') = [songA]"
    using songsOf_addSong [of lowerLatin1 1 "lit ''Song A''" None "lit ''Happy''" initial]
    by (simp add: songsOf_initial songA_def)
  with b have c: "songs (objects ?h 0) = [songA]"
    by (simp add: songsOf_def)
  have d: \<open>fst (recommendSongs lowerLatin1 1 (lit ''Sad'') initial)
       = Text (lit ''You don't have any songs in your "Sad" playlist yet.'')\<close>
    using recommendSongs_cases [of lowerLatin1 initial 1 "lit ''Sad''", THEN conjunct1] a
    by (simp add: lit_def)
  have e: "fst (recommendSongs lowerLatin1 1 (lit ''Happy'') ?h)
             = LlmPrompt (promptFor (lit ''Happy'') [songA]) (lit ''Happy'') 0"
    using recommendSongs_cases [of lowerLatin1 ?h 1 "lit ''Happy''", THEN conjunct2, THEN spec, of 0]
      b c
    by simp
  from a b c d e show ?thesis by blast
qed

subsection \<open>C10: \<^verbatim>\<open>addSong\<close> keeps the order of the calls\<close>

text \<open>
  C10: after any sequence of \<^verbatim>\<open>addSong\<close> calls for one mood, the songs of that mood's playlist
  are the former ones followed by the added ones in call order, and (when there was a call)
  \<^verbatim>\<open>getSongsByMood\<close> returns them in that order. On the empty store, adding A, B, C and
  reading gives A, B, C.
\<close>

theorem addSong_appends_in_call_order:
  "songsOf lc (addSongs lc ag m xs h) (storeOf h ag) m = songsOf lc h (storeOf h ag) m @ xs
   \<and> (xs \<noteq> [] \<longrightarrow>
        fst (getSongsByMood lc ag m (addSongs lc ag m xs h))
          = Inr (join (lit '', '') (map showSong (songsOf lc h (storeOf h ag) m @ xs))))"
proof (intro conjI impI)
  show "songsOf lc (addSongs lc ag m xs h) (storeOf h ag) m = songsOf lc h (storeOf h ag) m @ xs"
    by (rule songsOf_addSongs)
next
  assume "xs \<noteq> []"
  then obtain p where p: "findPlaylist lc (addSongs lc ag m xs h) (storeOf h ag) m = Some p"
    using findPlaylist_addSongs [of xs lc ag m h] by auto
  then have "songs (objects (addSongs lc ag m xs h) p) = songsOf lc h (storeOf h ag) m @ xs"
    using songsOf_addSongs [of lc ag m xs h] by (simp add: songsOf_def)
  with p show "fst (getSongsByMood lc ag m (addSongs lc ag m xs h))
          = Inr (join (lit '', '') (map showSong (songsOf lc h (storeOf h ag) m @ xs)))"
    by (simp add: fst_getSongsByMood)
qed

theorem addSong_appends_in_call_order_witness:
  \<open>[songA, songB, songC] \<noteq> []
   \<and> songsOf lowerLatin1 (addSongs lowerLatin1 1 (lit ''Happy'') [songA, songB, songC] initial)
        globalPlaylists (lit ''Happy'')
       = [songA, songB, songC]
   \<and> fst (getSongsByMood lowerLatin1 1 (lit ''Happy'')
             (addSongs lowerLatin1 1 (lit ''Happy'') [songA, songB, songC] initial))
       = Inr (lit ''"Song A", "Song B" by Band, "Song C"'')\<close>
  using addSong_appends_in_call_order
          [of lowerLatin1 1 "lit ''Happy''" "[songA, songB, songC]" initial]
  by (simp add: storeOf_initial songsOf_initial showSong_def byArtist_def truthy_def
        songA_def songB_def songC_def lit_def)

end
